theory Spec2Isabelle
  imports Complex_Main
begin

section \<open>Data model of robot\_locomotors.py\<close>

text \<open>
  The robots of \<^verbatim>\<open>pybulletgym/envs/robots/robot_locomotors.py\<close> are Python objects
  whose attributes are assigned by the constructors, by \<^verbatim>\<open>robot_specific_reset\<close> and by
  \<^verbatim>\<open>calc_state\<close>. One record holds the attributes of every class of the file; the
  class of an object is its field \<open>cls\<close>, and a method call dispatches on it as Python
  does on the object's class.

  Numbers: Python and numpy floats are modelled as \<open>real\<close>, and arithmetic on them
  does not round. The cast to float32 is modelled by \<open>float32\<close> where the source
  compares the cast numbers with a threshold (the joint and knee positions tested
  against 0.99), since there the rounding decides a count; where cast numbers are only
  reported, as in the observation vector, the numbers themselves are reported. The
  entries of an action vector, on which the source itself tests \<^verbatim>\<open>np.isfinite\<close>, are
  \<open>pyfloat\<close> values and so may be infinite or NaN. Python integers are \<open>int\<close>.
\<close>

type_synonym vec3 = "real \<times> real \<times> real"

datatype error = AssertionError | IndexError | KeyError | TypeError

datatype robot_class =
  Hopper | Walker2D | HalfCheetah | Ant | Humanoid | HumanoidFlagrun | HumanoidFlagrunHarder | Atlas

datatype pyfloat = Fl real | PInf | NInf | NaN

text \<open>
  A joint object: its mutable \<^verbatim>\<open>power_coef\<close>, and what the physics engine answers to
  \<^verbatim>\<open>current_relative_position()\<close> at this moment (normalised position, normalised
  velocity).
\<close>

record joint =
  power_coef :: real
  current_relative_position :: "real \<times> real"

text \<open>A body part: what the physics engine answers to \<^verbatim>\<open>pose().xyz()\<close>,
  \<^verbatim>\<open>pose().rpy()\<close> and \<^verbatim>\<open>speed()\<close> at this moment.\<close>

record body_part =
  xyz :: vec3
  rpy :: vec3
  speed :: vec3

text \<open>
  Calls that command the physics engine or the scene return nothing the source reads;
  each is appended to the log \<open>engine\<close> of the robot, in the order of the calls.
  Joints and body parts are named by their handles (addresses in \<open>joint_store\<close> and
  \<open>part_store\<close>), since \<^verbatim>\<open>jdict\<close>, \<^verbatim>\<open>ordered_joints\<close> and \<^verbatim>\<open>motors\<close> share the
  same joint objects.
\<close>

datatype command =
    ResetCurrentPosition nat real real
  | SetMotorTorque nat real
  | ActorIntroduce
  | ResetPose nat vec3 vec3
  | GetSphere real real real
  | GetCube real real real
  | CubeResetPosition vec3
  | CubeResetVelocity vec3

record scene_t =
  dt :: real
  stadium_halflen :: real
  stadium_halfwidth :: real

record robot =
  cls :: robot_class
  \<comment> \<open>assigned by \<^verbatim>\<open>WalkerBase.__init__\<close>\<close>
  power_val :: real
  camera_x :: real
  start_pos_x :: real
  start_pos_y :: real
  start_pos_z :: real
  walk_target_x :: real
  walk_target_y :: real
  \<comment> \<open>assigned by the model-loading base class (not in this file)\<close>
  model_file :: string
  robot_name :: string
  action_dim :: nat
  obs_dim :: nat
  ordered_joints :: "nat list"
  jdict :: "(string \<times> nat) list"
  parts :: "(string \<times> nat) list"
  robot_body :: nat
  joint_store :: "nat \<Rightarrow> joint"
  part_store :: "nat \<Rightarrow> body_part"
  scene :: scene_t
  np_random :: "nat \<Rightarrow> real"
  engine :: "command list"
  frame :: int
  \<comment> \<open>assigned by \<^verbatim>\<open>robot_specific_reset\<close>\<close>
  feet :: "nat list"
  feet_contact :: "real list"
  initial_z :: "real option"
  \<comment> \<open>assigned by \<^verbatim>\<open>calc_state\<close>\<close>
  joint_speeds :: "real list"
  joints_at_limit :: nat
  body_xyz :: vec3
  body_rpy :: vec3
  walk_target_theta :: real
  walk_target_dist :: real
  \<comment> \<open>Humanoid\<close>
  motor_names :: "string list"
  motor_power :: "real list"
  motors :: "nat list"
  \<comment> \<open>HumanoidFlagrun\<close>
  flag :: "vec3 option"
  flag_timeout :: int
  potential :: real
  \<comment> \<open>HumanoidFlagrunHarder\<close>
  aggressive_cube :: "vec3 option"
  on_ground_frame_counter :: int
  crawl_start_potential :: "real option"
  crawl_ignored_potential :: real
  \<comment> \<open>Atlas\<close>
  random_yaw :: bool
  head :: nat

text \<open>The class attribute \<^verbatim>\<open>foot_list\<close> of each class (the Flagrun classes inherit
  Humanoid's).\<close>

fun foot_list :: "robot_class \<Rightarrow> string list" where
  "foot_list Hopper = [''foot'']"
| "foot_list Walker2D = [''foot'', ''foot_left'']"
| "foot_list HalfCheetah = [''ffoot'', ''fshin'', ''fthigh'', ''bfoot'', ''bshin'', ''bthigh'']"
| "foot_list Ant = [''front_left_foot'', ''front_right_foot'', ''left_back_foot'', ''right_back_foot'']"
| "foot_list Humanoid = [''right_foot'', ''left_foot'']"
| "foot_list HumanoidFlagrun = [''right_foot'', ''left_foot'']"
| "foot_list HumanoidFlagrunHarder = [''right_foot'', ''left_foot'']"
| "foot_list Atlas = [''r_foot'', ''l_foot'']"

subsection \<open>numpy and Python helpers\<close>

definition np_clip :: "real \<Rightarrow> real \<Rightarrow> real \<Rightarrow> real" where
  "np_clip x lo hi = min (max x lo) hi"

definition isfinite :: "pyfloat \<Rightarrow> bool" where
  "isfinite v = (case v of Fl x \<Rightarrow> True | _ \<Rightarrow> False)"

text \<open>
  The cast of a number to \<^verbatim>\<open>np.float32\<close>: the nearest number with a significand of 24
  bits, a tie going to the even one, with the fixed spacing of the subnormal numbers
  below 2 to the power -126. A magnitude of 2 to the power 128 or more becomes infinite
  in the source; the number kept here for it compares with the threshold 0.99 as the
  infinite value does. numpy compares a float32 array with the Python number 0.99 in
  float32, so the threshold is cast as well.
\<close>

definition round_half_even :: "real \<Rightarrow> int" where
  "round_half_even q =
     (let f = \<lfloor>q\<rfloor>
      in if q - of_int f < 1 / 2 then f
         else if q - of_int f > 1 / 2 then f + 1
         else if even f then f else f + 1)"

definition float32 :: "real \<Rightarrow> real" where
  "float32 x =
     (if x = 0 then 0
      else let e = max \<lfloor>log 2 \<bar>x\<bar>\<rfloor> (- 126);
               ulp = 2 powr (of_int e - 23)
           in of_int (round_half_even (x / ulp)) * ulp)"

text \<open>The values of a vector all of whose entries are finite; \<open>None\<close> exactly when
  \<^verbatim>\<open>np.isfinite(a).all()\<close> is false.\<close>

fun finite_values :: "pyfloat list \<Rightarrow> real list option" where
  "finite_values [] = Some []"
| "finite_values (Fl x # vs) = (case finite_values vs of None \<Rightarrow> None | Some xs \<Rightarrow> Some (x # xs))"
| "finite_values (_ # vs) = None"

text \<open>A dictionary lookup \<^verbatim>\<open>d[k]\<close>, which raises KeyError on a missing key.\<close>

definition dict_get :: "(string \<times> 'a) list \<Rightarrow> string \<Rightarrow> error + 'a" where
  "dict_get d k = (case map_of d k of None \<Rightarrow> Inl KeyError | Some v \<Rightarrow> Inr v)"

definition emit :: "command \<Rightarrow> robot \<Rightarrow> robot" where
  "emit c s = s\<lparr>engine := engine s @ [c]\<rparr>"

text \<open>\<^verbatim>\<open>np_random.uniform(low, high)\<close>: the random source is a stream of draws from the
  unit interval; a call consumes the first one.\<close>

definition uniform :: "robot \<Rightarrow> real \<Rightarrow> real \<Rightarrow> real \<times> robot" where
  "uniform s low high =
     (low + (high - low) * np_random s 0, s\<lparr>np_random := (\<lambda>k. np_random s (Suc k))\<rparr>)"

section \<open>WalkerBase\<close>

subsection \<open>apply\_action\<close>

text \<open>The loop of \<^verbatim>\<open>WalkerBase.apply_action\<close> over \<^verbatim>\<open>enumerate(self.ordered_joints)\<close>;
  \<^verbatim>\<open>a[n]\<close> raises IndexError past the end of \<open>a\<close>.\<close>

fun set_motor_torques :: "robot \<Rightarrow> real list \<Rightarrow> (nat \<times> nat) list \<Rightarrow> error + robot" where
  "set_motor_torques s a [] = Inr s"
| "set_motor_torques s a ((n, j) # rest) =
     (if n < length a
      then set_motor_torques
             (emit (SetMotorTorque j (power_val s * power_coef (joint_store s j) * np_clip (a ! n) (-1) 1)) s)
             a rest
      else Inl IndexError)"

definition WalkerBase_apply_action :: "robot \<Rightarrow> pyfloat list \<Rightarrow> error + robot" where
  "WalkerBase_apply_action s a =
     (case finite_values a of
        None \<Rightarrow> Inl AssertionError
      | Some xs \<Rightarrow> set_motor_torques s xs (enumerate 0 (ordered_joints s)))"

subsection \<open>calc\_state and calc\_potential\<close>

text \<open>The slice \<^verbatim>\<open>xs[i::k]\<close> is \<open>stride k (drop i xs)\<close>.\<close>

fun stride :: "nat \<Rightarrow> 'a list \<Rightarrow> 'a list" where
  "stride k [] = []"
| "stride k (x # xs) = x # stride k (drop (k - 1) xs)"

text \<open>\<^verbatim>\<open>xs.mean()\<close>. On an empty array numpy warns and answers NaN, where the
  division by zero of HOL answers 0; a robot has at least one part.\<close>

definition mean :: "real list \<Rightarrow> real" where
  "mean xs = sum_list xs / real (length xs)"

definition arctan2 :: "real \<Rightarrow> real \<Rightarrow> real" where
  "arctan2 y x =
     (if 0 < x then arctan (y / x)
      else if x < 0 \<and> 0 \<le> y then arctan (y / x) + pi
      else if x < 0 then arctan (y / x) - pi
      else if 0 < y then pi / 2
      else if y < 0 then - pi / 2
      else 0)"

text \<open>\<^verbatim>\<open>np.linalg.norm\<close> of a list of two numbers.\<close>

definition norm2 :: "real \<Rightarrow> real \<Rightarrow> real" where
  "norm2 u v = sqrt (u * u + v * v)"

text \<open>The flattened array \<^verbatim>\<open>j\<close> of \<^verbatim>\<open>calc_state\<close>: position and velocity of each
  ordered joint, interleaved.\<close>

definition joint_array :: "robot \<Rightarrow> real list" where
  "joint_array s =
     concat (map (\<lambda>h. [fst (current_relative_position (joint_store s h)),
                        snd (current_relative_position (joint_store s h))])
                 (ordered_joints s))"

text \<open>
  \<^verbatim>\<open>WalkerBase.calc_state\<close>. The subtraction \<^verbatim>\<open>z - self.initial_z\<close> raises TypeError on
  \<^verbatim>\<open>None\<close>; the assignment before it is what keeps that branch from being taken. The array
  \<^verbatim>\<open>j\<close> is built with \<^verbatim>\<open>dtype=np.float32\<close>, so the positions counted in
  \<^verbatim>\<open>joints_at_limit\<close> are the cast ones.
\<close>

definition WalkerBase_calc_state :: "robot \<Rightarrow> error + (real list \<times> robot)" where
  "WalkerBase_calc_state s0 =
     (let j = joint_array s0;
          s1 = s0\<lparr>joint_speeds := stride 2 (drop 1 j)\<rparr>;
          s2 = s1\<lparr>joints_at_limit :=
                    length (filter (\<lambda>x. \<bar>float32 x\<bar> > float32 0.99) (stride 2 j))\<rparr>;
          body_pose = part_store s2 (robot_body s2);
          parts_xyz = concat (map (\<lambda>(n, h). case xyz (part_store s2 h) of (x, y, z) \<Rightarrow> [x, y, z])
                                  (parts s2));
          s3 = s2\<lparr>body_xyz := (mean (stride 3 parts_xyz), mean (stride 3 (drop 1 parts_xyz)),
                                snd (snd (xyz body_pose)))\<rparr>;
          s4 = s3\<lparr>body_rpy := rpy body_pose\<rparr>;
          z = snd (snd (body_xyz s4));
          s5 = (if initial_z s4 = None then s4\<lparr>initial_z := Some z\<rparr> else s4)
      in case body_rpy s5 of (r, p, yaw) \<Rightarrow>
         let s6 = s5\<lparr>walk_target_theta :=
                       arctan2 (walk_target_y s5 - fst (snd (body_xyz s5)))
                               (walk_target_x s5 - fst (body_xyz s5))\<rparr>;
             s7 = s6\<lparr>walk_target_dist :=
                       norm2 (walk_target_y s6 - fst (snd (body_xyz s6)))
                             (walk_target_x s6 - fst (body_xyz s6))\<rparr>;
             angle_to_target = walk_target_theta s7 - yaw
         in case speed (part_store s7 (robot_body s7)) of (sx, sy, sz) \<Rightarrow>
            let vx = cos (- yaw) * sx + (- sin (- yaw)) * sy + 0 * sz;
                vy = sin (- yaw) * sx + cos (- yaw) * sy + 0 * sz;
                vz = 0 * sx + 0 * sy + 1 * sz
            in case initial_z s7 of
                 None \<Rightarrow> Inl TypeError
               | Some iz \<Rightarrow>
                   let more = [z - iz, sin angle_to_target, cos angle_to_target,
                               0.3 * vx, 0.3 * vy, 0.3 * vz, r, p]
                   in Inr (map (\<lambda>x. np_clip x (-5) 5) (more @ j @ feet_contact s7), s7))"

definition WalkerBase_calc_potential :: "robot \<Rightarrow> real" where
  "WalkerBase_calc_potential s = - walk_target_dist s / dt (scene s)"

subsection \<open>robot\_specific\_reset\<close>

text \<open>The first loop of \<^verbatim>\<open>WalkerBase.robot_specific_reset\<close>: one draw per joint.\<close>

fun reset_joints :: "robot \<Rightarrow> nat list \<Rightarrow> robot" where
  "reset_joints s [] = s"
| "reset_joints s (j # js) =
     (case uniform s (-0.1) 0.1 of (u, s') \<Rightarrow> reset_joints (emit (ResetCurrentPosition j u 0) s') js)"

text \<open>The list comprehension \<^verbatim>\<open>[d[k] for k in ks]\<close>: the first missing key raises.\<close>

fun dict_get_all :: "(string \<times> 'a) list \<Rightarrow> string list \<Rightarrow> error + 'a list" where
  "dict_get_all d [] = Inr []"
| "dict_get_all d (k # ks) =
     (case dict_get d k of
        Inl e \<Rightarrow> Inl e
      | Inr v \<Rightarrow> (case dict_get_all d ks of Inl e \<Rightarrow> Inl e | Inr vs \<Rightarrow> Inr (v # vs)))"

definition WalkerBase_robot_specific_reset :: "robot \<Rightarrow> error + robot" where
  "WalkerBase_robot_specific_reset s0 =
     (let s1 = reset_joints s0 (ordered_joints s0)
      in case dict_get_all (parts s1) (foot_list (cls s1)) of
           Inl e \<Rightarrow> Inl e
         | Inr fs \<Rightarrow>
             let s2 = s1\<lparr>feet := fs\<rparr>;
                 s3 = s2\<lparr>feet_contact := map (\<lambda>f. 0) (foot_list (cls s2))\<rparr>;
                 s4 = emit ActorIntroduce s3
             in Inr (s4\<lparr>initial_z := None\<rparr>))"

section \<open>The concrete robots\<close>

text \<open>The assignment \<^verbatim>\<open>self.jdict[n].power_coef = v\<close>, for a sequence of names and
  values; it raises KeyError at the first name the model does not have.\<close>

fun set_power_coefs :: "robot \<Rightarrow> (string \<times> real) list \<Rightarrow> error + robot" where
  "set_power_coefs s [] = Inr s"
| "set_power_coefs s ((n, v) # rest) =
     (case dict_get (jdict s) n of
        Inl e \<Rightarrow> Inl e
      | Inr h \<Rightarrow>
          set_power_coefs
            (s\<lparr>joint_store := (joint_store s)(h := (joint_store s h)\<lparr>power_coef := v\<rparr>)\<rparr>) rest)"

text \<open>\<^verbatim>\<open>xs[i]\<close> for a constant index \<open>i\<close> that is not negative.\<close>

definition list_get :: "'a list \<Rightarrow> nat \<Rightarrow> error + 'a" where
  "list_get xs i = (if i < length xs then Inr (xs ! i) else Inl IndexError)"

subsection \<open>Hopper, Walker2D, HalfCheetah, Ant\<close>

definition Hopper_alive_bonus :: "robot \<Rightarrow> real \<Rightarrow> real \<Rightarrow> int" where
  "Hopper_alive_bonus s z pitch = (if z > 0.8 \<and> \<bar>pitch\<bar> < 1.0 then 1 else -1)"

definition Walker2D_alive_bonus :: "robot \<Rightarrow> real \<Rightarrow> real \<Rightarrow> int" where
  "Walker2D_alive_bonus s z pitch = (if z > 0.8 \<and> \<bar>pitch\<bar> < 1.0 then 1 else -1)"

definition Walker2D_robot_specific_reset :: "robot \<Rightarrow> error + robot" where
  "Walker2D_robot_specific_reset s =
     (case WalkerBase_robot_specific_reset s of
        Inl e \<Rightarrow> Inl e
      | Inr s1 \<Rightarrow> set_power_coefs s1 (map (\<lambda>n. (n, 30.0)) [''foot_joint'', ''foot_left_joint'']))"

text \<open>\<^verbatim>\<open>HalfCheetah.alive_bonus\<close>: the chain of \<^verbatim>\<open>and\<close> stops at its first false
  operand, so an entry of \<^verbatim>\<open>feet_contact\<close> is read only when everything before it held;
  \<^verbatim>\<open>not x\<close> on a number is \<open>x = 0\<close>.\<close>

definition HalfCheetah_alive_bonus :: "robot \<Rightarrow> real \<Rightarrow> real \<Rightarrow> error + int" where
  "HalfCheetah_alive_bonus s z pitch =
     (if \<not> \<bar>pitch\<bar> < 1.0 then Inr (-1)
      else case list_get (feet_contact s) 1 of Inl e \<Rightarrow> Inl e | Inr c1 \<Rightarrow>
        if \<not> c1 = 0 then Inr (-1)
        else case list_get (feet_contact s) 2 of Inl e \<Rightarrow> Inl e | Inr c2 \<Rightarrow>
          if \<not> c2 = 0 then Inr (-1)
          else case list_get (feet_contact s) 4 of Inl e \<Rightarrow> Inl e | Inr c4 \<Rightarrow>
            if \<not> c4 = 0 then Inr (-1)
            else case list_get (feet_contact s) 5 of Inl e \<Rightarrow> Inl e | Inr c5 \<Rightarrow>
              if \<not> c5 = 0 then Inr (-1) else Inr 1)"

definition HalfCheetah_robot_specific_reset :: "robot \<Rightarrow> error + robot" where
  "HalfCheetah_robot_specific_reset s =
     (case WalkerBase_robot_specific_reset s of
        Inl e \<Rightarrow> Inl e
      | Inr s1 \<Rightarrow>
          set_power_coefs s1
            [(''bthigh'', 120.0), (''bshin'', 90.0), (''bfoot'', 60.0),
             (''fthigh'', 140.0), (''fshin'', 60.0), (''ffoot'', 30.0)])"

definition Ant_alive_bonus :: "robot \<Rightarrow> real \<Rightarrow> real \<Rightarrow> int" where
  "Ant_alive_bonus s z pitch = (if z > 0.26 then 1 else -1)"

subsection \<open>Humanoid\<close>

definition Humanoid_robot_specific_reset :: "robot \<Rightarrow> error + robot" where
  "Humanoid_robot_specific_reset s0 =
     (case WalkerBase_robot_specific_reset s0 of
        Inl e \<Rightarrow> Inl e
      | Inr s1 \<Rightarrow>
          let s2 = s1\<lparr>motor_names := [''abdomen_z'', ''abdomen_y'', ''abdomen_x'']\<rparr>;
              s3 = s2\<lparr>motor_power := [100, 100, 100]\<rparr>;
              s4 = s3\<lparr>motor_names := motor_names s3 @
                         [''right_hip_x'', ''right_hip_z'', ''right_hip_y'', ''right_knee'']\<rparr>;
              s5 = s4\<lparr>motor_power := motor_power s4 @ [100, 100, 300, 200]\<rparr>;
              s6 = s5\<lparr>motor_names := motor_names s5 @
                         [''left_hip_x'', ''left_hip_z'', ''left_hip_y'', ''left_knee'']\<rparr>;
              s7 = s6\<lparr>motor_power := motor_power s6 @ [100, 100, 300, 200]\<rparr>;
              s8 = s7\<lparr>motor_names := motor_names s7 @
                         [''right_shoulder1'', ''right_shoulder2'', ''right_elbow'']\<rparr>;
              s9 = s8\<lparr>motor_power := motor_power s8 @ [75, 75, 75]\<rparr>;
              s10 = s9\<lparr>motor_names := motor_names s9 @
                         [''left_shoulder1'', ''left_shoulder2'', ''left_elbow'']\<rparr>;
              s11 = s10\<lparr>motor_power := motor_power s10 @ [75, 75, 75]\<rparr>
          in case dict_get_all (jdict s11) (motor_names s11) of
               Inl e \<Rightarrow> Inl e
             | Inr ms \<Rightarrow> Inr (s11\<lparr>motors := ms, initial_z := Some 0.8\<rparr>))"

text \<open>The loop of \<^verbatim>\<open>Humanoid.apply_action\<close> over
  \<^verbatim>\<open>zip(range(17), self.motors, self.motor_power)\<close>; the action is not clipped.\<close>

fun set_humanoid_torques :: "robot \<Rightarrow> real list \<Rightarrow> (nat \<times> nat \<times> real) list \<Rightarrow> error + robot" where
  "set_humanoid_torques s a [] = Inr s"
| "set_humanoid_torques s a ((i, m, pw) # rest) =
     (if i < length a
      then set_humanoid_torques (emit (SetMotorTorque m (1 * pw * power_val s * (a ! i))) s) a rest
      else Inl IndexError)"

definition Humanoid_apply_action :: "robot \<Rightarrow> pyfloat list \<Rightarrow> error + robot" where
  "Humanoid_apply_action s a =
     (case finite_values a of
        None \<Rightarrow> Inl AssertionError
      | Some xs \<Rightarrow> set_humanoid_torques s xs (zip [0..<17] (zip (motors s) (motor_power s))))"

definition Humanoid_alive_bonus :: "robot \<Rightarrow> real \<Rightarrow> real \<Rightarrow> int" where
  "Humanoid_alive_bonus s z pitch = (if z > 0.78 then 2 else -1)"

subsection \<open>HumanoidFlagrun\<close>

text \<open>\<^verbatim>\<open>ObjectHelper.get_sphere\<close> is not in this file; the marker it returns is
  identified with the place it was spawned at.\<close>

definition flag_reposition :: "robot \<Rightarrow> robot" where
  "flag_reposition s0 =
     (case uniform s0 (- stadium_halflen (scene s0)) (stadium_halflen (scene s0)) of (x, s1) \<Rightarrow>
      let s2 = s1\<lparr>walk_target_x := x\<rparr>
      in case uniform s2 (- stadium_halfwidth (scene s2)) (stadium_halfwidth (scene s2)) of (y, s3) \<Rightarrow>
      let s4 = s3\<lparr>walk_target_y := y\<rparr>;
          more_compact = 0.5;
          s5 = s4\<lparr>walk_target_x := walk_target_x s4 * more_compact\<rparr>;
          s6 = s5\<lparr>walk_target_y := walk_target_y s5 * more_compact\<rparr>;
          s7 = s6\<lparr>flag := None\<rparr>;
          s8 = (emit (GetSphere (walk_target_x s7) (walk_target_y s7) 0.2) s7)
                 \<lparr>flag := Some (walk_target_x s7, walk_target_y s7, 0.2)\<rparr>
      in s8\<lparr>flag_timeout := 200\<rparr>)"

definition HumanoidFlagrun_robot_specific_reset :: "robot \<Rightarrow> error + robot" where
  "HumanoidFlagrun_robot_specific_reset s =
     (case Humanoid_robot_specific_reset s of
        Inl e \<Rightarrow> Inl e
      | Inr s1 \<Rightarrow> Inr (flag_reposition s1))"

subsection \<open>HumanoidFlagrunHarder\<close>

definition potential_leak :: "robot \<Rightarrow> real" where
  "potential_leak s =
     (let z = snd (snd (body_xyz s));
          z = np_clip z 0 0.8
      in z / 0.8 + 1.0)"

text \<open>
  \<^verbatim>\<open>HumanoidFlagrunHarder.calc_potential\<close>. In the branch of a robot that is down, \<open>c\<close> is
  the value of \<^verbatim>\<open>crawl_start_potential\<close> after the inner \<^verbatim>\<open>if\<close>: the one just assigned
  when it was \<^verbatim>\<open>None\<close>, the one kept otherwise.
\<close>

definition HumanoidFlagrunHarder_calc_potential :: "robot \<Rightarrow> real \<times> robot" where
  "HumanoidFlagrunHarder_calc_potential s =
     (let flag_running_progress = WalkerBase_calc_potential s
      in if snd (snd (body_xyz s)) < 0.8
         then
           let c = (case crawl_start_potential s of
                      None \<Rightarrow> flag_running_progress - crawl_ignored_potential s
                    | Some c \<Rightarrow> c);
               s1 = s\<lparr>crawl_start_potential := Some c\<rparr>;
               s2 = s1\<lparr>crawl_ignored_potential := flag_running_progress - c\<rparr>
           in (c + potential_leak s2 * 100, s2)
         else
           let s1 = s\<lparr>crawl_start_potential := None\<rparr>
           in (flag_running_progress - crawl_ignored_potential s + potential_leak s1 * 100, s1))"

text \<open>\<^verbatim>\<open>ObjectHelper.get_cube\<close> is not in this file either; the cube is identified with
  the place it was spawned at, and the two calls that throw it go to the log.\<close>

definition vadd :: "vec3 \<Rightarrow> vec3 \<Rightarrow> vec3" where
  "vadd u v = (case u of (a, b, c) \<Rightarrow> case v of (d, e, f) \<Rightarrow> (a + d, b + e, c + f))"

definition vsub :: "vec3 \<Rightarrow> vec3 \<Rightarrow> vec3" where
  "vsub u v = (case u of (a, b, c) \<Rightarrow> case v of (d, e, f) \<Rightarrow> (a - d, b - e, c - f))"

definition vscale :: "vec3 \<Rightarrow> real \<Rightarrow> vec3" where
  "vscale u k = (case u of (a, b, c) \<Rightarrow> (a * k, b * k, c * k))"

definition norm3 :: "vec3 \<Rightarrow> real" where
  "norm3 u = (case u of (a, b, c) \<Rightarrow> sqrt (a * a + b * b + c * c))"

text \<open>The branch of \<^verbatim>\<open>HumanoidFlagrunHarder.alive_bonus\<close> that throws the cube; it
  draws five numbers and commands the cube.\<close>

definition attack :: "robot \<Rightarrow> robot" where
  "attack s0 =
     (let target_xyz = body_xyz s0;
          robot_speed = speed (part_store s0 (robot_body s0))
      in case uniform s0 (-3.14) 3.14 of (angle, s1) \<Rightarrow>
         let from_dist = 4.0
         in case uniform s1 20.0 30.0 of (attack_speed, s2) \<Rightarrow>
            let time_to_travel = from_dist / attack_speed;
                target_xyz = vadd target_xyz (vscale robot_speed time_to_travel);
                position = (fst target_xyz + from_dist * cos angle,
                            fst (snd target_xyz) + from_dist * sin angle,
                            snd (snd target_xyz) + 1.0);
                attack_speed_vector = vsub target_xyz position;
                attack_speed_vector =
                  vscale attack_speed_vector (attack_speed / norm3 attack_speed_vector)
            in case uniform s2 (-1.0) 1.0 of (n1, s3) \<Rightarrow>
               case uniform s3 (-1.0) 1.0 of (n2, s4) \<Rightarrow>
               case uniform s4 (-1.0) 1.0 of (n3, s5) \<Rightarrow>
               let attack_speed_vector = vadd attack_speed_vector (n1, n2, n3)
               in emit (CubeResetVelocity attack_speed_vector) (emit (CubeResetPosition position) s5))"

definition HumanoidFlagrunHarder_alive_bonus :: "robot \<Rightarrow> real \<Rightarrow> real \<Rightarrow> real \<times> robot" where
  "HumanoidFlagrunHarder_alive_bonus s0 z pitch =
     (let s1 = (if frame s0 mod 30 = 0 \<and> frame s0 > 100 \<and> on_ground_frame_counter s0 = 0
                then attack s0 else s0);
          s2 = (if z < 0.8
                then s1\<lparr>on_ground_frame_counter := on_ground_frame_counter s1 + 1\<rparr>
                else if on_ground_frame_counter s1 > 0
                then s1\<lparr>on_ground_frame_counter := on_ground_frame_counter s1 - 1\<rparr>
                else s1)
      in (if on_ground_frame_counter s2 < 170 then potential_leak s2 else -1, s2))"

definition HumanoidFlagrunHarder_robot_specific_reset :: "robot \<Rightarrow> error + robot" where
  "HumanoidFlagrunHarder_robot_specific_reset s =
     (case HumanoidFlagrun_robot_specific_reset s of
        Inl e \<Rightarrow> Inl e
      | Inr s1 \<Rightarrow>
          let s2 = (emit (GetCube (-1.5) 0 0.05) s1)\<lparr>aggressive_cube := Some (-1.5, 0, 0.05)\<rparr>;
              s3 = s2\<lparr>on_ground_frame_counter := 0\<rparr>;
              s4 = s3\<lparr>crawl_start_potential := None\<rparr>;
              s5 = s4\<lparr>crawl_ignored_potential := 0.0\<rparr>
          in Inr (s5\<lparr>initial_z := Some 0.8\<rparr>))"

subsection \<open>Atlas\<close>

text \<open>\<^verbatim>\<open>Atlas.alive_bonus\<close>. The source unpacks the head's position into \<^verbatim>\<open>x,y,z\<close>, which
  rebinds the parameter \<^verbatim>\<open>z\<close>; the pattern below does the same to the argument \<open>z\<close>.
  The array \<^verbatim>\<open>knees\<close> is built with \<^verbatim>\<open>dtype=np.float32\<close>, and its positions are compared
  with 0.99 in float32.\<close>

definition Atlas_alive_bonus :: "robot \<Rightarrow> real \<Rightarrow> real \<Rightarrow> error + int" where
  "Atlas_alive_bonus s z pitch =
     (case xyz (part_store s (head s)) of (x, y, z) \<Rightarrow>
      case dict_get_all (jdict s) [''l_leg_kny'', ''r_leg_kny''] of
        Inl e \<Rightarrow> Inl e
      | Inr ks \<Rightarrow>
          let knees = concat (map (\<lambda>h. [float32 (fst (current_relative_position (joint_store s h))),
                                         float32 (snd (current_relative_position (joint_store s h)))])
                                  ks);
              knees_at_limit = length (filter (\<lambda>x. \<bar>x\<bar> > float32 0.99) (stride 2 knees))
          in Inr (if z > 1.3 then 4 - int knees_at_limit else -1))"

text \<open>\<^verbatim>\<open>Atlas.set_initial_orientation\<close>. The pose goes to the engine with the Euler angles
  the source turns into a quaternion.\<close>

definition set_initial_orientation :: "robot \<Rightarrow> real \<Rightarrow> real \<Rightarrow> robot" where
  "set_initial_orientation s0 yaw_center yaw_random_spread =
     (case (if \<not> random_yaw s0 then (yaw_center, s0)
            else case uniform s0 (- yaw_random_spread) yaw_random_spread of
                   (u, s1) \<Rightarrow> (yaw_center + u, s1)) of
        (yaw, s2) \<Rightarrow>
          let position = (start_pos_x s2, start_pos_y s2, start_pos_z s2 + 1.0);
              orientation = (0, 0, yaw);
              s3 = emit (ResetPose (robot_body s2) position orientation) s2
          in s3\<lparr>initial_z := Some 1.5\<rparr>)"

definition Atlas_robot_specific_reset :: "robot \<Rightarrow> error + robot" where
  "Atlas_robot_specific_reset s =
     (case WalkerBase_robot_specific_reset s of
        Inl e \<Rightarrow> Inl e
      | Inr s1 \<Rightarrow>
          let s2 = set_initial_orientation s1 0 pi
          in case dict_get (parts s2) ''head'' of
               Inl e \<Rightarrow> Inl e
             | Inr h \<Rightarrow> Inr (s2\<lparr>head := h\<rparr>))"

section \<open>Method dispatch\<close>

text \<open>A call \<^verbatim>\<open>self.m(...)\<close> runs the method \<open>m\<close> of the object's class, or the one it
  inherits.\<close>

definition apply_action :: "robot \<Rightarrow> pyfloat list \<Rightarrow> error + robot" where
  "apply_action s a =
     (case cls s of
        Humanoid \<Rightarrow> Humanoid_apply_action s a
      | HumanoidFlagrun \<Rightarrow> Humanoid_apply_action s a
      | HumanoidFlagrunHarder \<Rightarrow> Humanoid_apply_action s a
      | _ \<Rightarrow> WalkerBase_apply_action s a)"

definition calc_potential :: "robot \<Rightarrow> real \<times> robot" where
  "calc_potential s =
     (case cls s of
        HumanoidFlagrunHarder \<Rightarrow> HumanoidFlagrunHarder_calc_potential s
      | _ \<Rightarrow> (WalkerBase_calc_potential s, s))"

definition HumanoidFlagrun_calc_state :: "robot \<Rightarrow> error + (real list \<times> robot)" where
  "HumanoidFlagrun_calc_state s0 =
     (let s1 = s0\<lparr>flag_timeout := flag_timeout s0 - 1\<rparr>
      in case WalkerBase_calc_state s1 of
           Inl e \<Rightarrow> Inl e
         | Inr (state, s2) \<Rightarrow>
             if walk_target_dist s2 < 1 \<or> flag_timeout s2 \<le> 0
             then let s3 = flag_reposition s2
                  in case WalkerBase_calc_state s3 of
                       Inl e \<Rightarrow> Inl e
                     | Inr (state, s4) \<Rightarrow>
                         (case calc_potential s4 of (v, s5) \<Rightarrow> Inr (state, s5\<lparr>potential := v\<rparr>))
             else Inr (state, s2))"

definition calc_state :: "robot \<Rightarrow> error + (real list \<times> robot)" where
  "calc_state s =
     (case cls s of
        HumanoidFlagrun \<Rightarrow> HumanoidFlagrun_calc_state s
      | HumanoidFlagrunHarder \<Rightarrow> HumanoidFlagrun_calc_state s
      | _ \<Rightarrow> WalkerBase_calc_state s)"

definition robot_specific_reset :: "robot \<Rightarrow> error + robot" where
  "robot_specific_reset s =
     (case cls s of
        Hopper \<Rightarrow> WalkerBase_robot_specific_reset s
      | Walker2D \<Rightarrow> Walker2D_robot_specific_reset s
      | HalfCheetah \<Rightarrow> HalfCheetah_robot_specific_reset s
      | Ant \<Rightarrow> WalkerBase_robot_specific_reset s
      | Humanoid \<Rightarrow> Humanoid_robot_specific_reset s
      | HumanoidFlagrun \<Rightarrow> HumanoidFlagrun_robot_specific_reset s
      | HumanoidFlagrunHarder \<Rightarrow> HumanoidFlagrunHarder_robot_specific_reset s
      | Atlas \<Rightarrow> Atlas_robot_specific_reset s)"

section \<open>Constructors\<close>

definition WalkerBase_init :: "robot \<Rightarrow> real \<Rightarrow> robot" where
  "WalkerBase_init self pw =
     self\<lparr>power_val := pw, camera_x := 0,
          start_pos_x := 0, start_pos_y := 0, start_pos_z := 0,
          walk_target_x := 1000, walk_target_y := 0\<rparr>"

text \<open>Modelled from the spec: \<^verbatim>\<open>MJCFBasedRobot.__init__\<close> and \<^verbatim>\<open>URDFBasedRobot.__init__\<close>
  are defined in \<^verbatim>\<open>robot_bases.py\<close>, which is not among the sources. Each variant "fixes
  its model identifier, torso part name and action/observation dimensionality" through
  them, so they are taken to store their four arguments.\<close>

definition XmlBasedRobot_init :: "robot \<Rightarrow> string \<Rightarrow> string \<Rightarrow> nat \<Rightarrow> nat \<Rightarrow> robot" where
  "XmlBasedRobot_init self model_xml name adim odim =
     self\<lparr>model_file := model_xml, robot_name := name, action_dim := adim, obs_dim := odim\<rparr>"

text \<open>
  The \<^verbatim>\<open>__init__\<close> of every concrete class has the one parameter \<^verbatim>\<open>self\<close>. Called through
  its class, as the subclasses do, it is a plain function: the list \<open>args\<close> holds the
  positional arguments of the call, and any number of them but one raises TypeError.
\<close>

definition Hopper_init :: "robot list \<Rightarrow> error + robot" where
  "Hopper_init args =
     (case args of
        [self] \<Rightarrow> Inr (XmlBasedRobot_init (WalkerBase_init self 0.75) ''hopper.xml'' ''torso'' 3 15)
      | _ \<Rightarrow> Inl TypeError)"

definition Walker2D_init :: "robot list \<Rightarrow> error + robot" where
  "Walker2D_init args =
     (case args of
        [self] \<Rightarrow> Inr (XmlBasedRobot_init (WalkerBase_init self 0.40) ''walker2d.xml'' ''torso'' 6 22)
      | _ \<Rightarrow> Inl TypeError)"

definition HalfCheetah_init :: "robot list \<Rightarrow> error + robot" where
  "HalfCheetah_init args =
     (case args of
        [self] \<Rightarrow> Inr (XmlBasedRobot_init (WalkerBase_init self 0.90) ''half_cheetah.xml'' ''torso'' 6 26)
      | _ \<Rightarrow> Inl TypeError)"

definition Ant_init :: "robot list \<Rightarrow> error + robot" where
  "Ant_init args =
     (case args of
        [self] \<Rightarrow> Inr (XmlBasedRobot_init (WalkerBase_init self 10.5) ''ant.xml'' ''torso'' 8 28)
      | _ \<Rightarrow> Inl TypeError)"

definition Humanoid_init :: "robot list \<Rightarrow> error + robot" where
  "Humanoid_init args =
     (case args of
        [self] \<Rightarrow>
          Inr (XmlBasedRobot_init (WalkerBase_init self 0.41) ''humanoid_symmetric.xml'' ''torso'' 17 44)
      | _ \<Rightarrow> Inl TypeError)"

definition HumanoidFlagrun_init :: "robot list \<Rightarrow> error + robot" where
  "HumanoidFlagrun_init args =
     (case args of
        [self] \<Rightarrow> Humanoid_init [self]
      | _ \<Rightarrow> Inl TypeError)"

text \<open>\<^verbatim>\<open>HumanoidFlagrunHarder.__init__\<close> calls \<^verbatim>\<open>HumanoidFlagrun.__init__()\<close>, with no
  argument.\<close>

definition HumanoidFlagrunHarder_init :: "robot list \<Rightarrow> error + robot" where
  "HumanoidFlagrunHarder_init args =
     (case args of
        [self] \<Rightarrow> HumanoidFlagrun_init []
      | _ \<Rightarrow> Inl TypeError)"

definition Atlas_init :: "robot list \<Rightarrow> error + robot" where
  "Atlas_init args =
     (case args of
        [self] \<Rightarrow>
          Inr (XmlBasedRobot_init (WalkerBase_init self 2.9)
                 ''atlas/atlas_description/atlas_v4_with_multisense.urdf'' ''pelvis'' 30 70)
      | _ \<Rightarrow> Inl TypeError)"

text \<open>
  The call \<^verbatim>\<open>C(*args)\<close> of a class: Python allocates the object and calls
  \<^verbatim>\<open>C.__init__(obj, *args)\<close>; an exception of \<^verbatim>\<open>__init__\<close> is the outcome of the call, and
  otherwise the object is. \<open>blank\<close> is the newly allocated object, none of whose
  attributes is assigned yet.
\<close>

definition construct :: "robot_class \<Rightarrow> robot \<Rightarrow> robot list \<Rightarrow> error + robot" where
  "construct c blank args =
     (let self = blank\<lparr>cls := c\<rparr>
      in case c of
           Hopper \<Rightarrow> Hopper_init (self # args)
         | Walker2D \<Rightarrow> Walker2D_init (self # args)
         | HalfCheetah \<Rightarrow> HalfCheetah_init (self # args)
         | Ant \<Rightarrow> Ant_init (self # args)
         | Humanoid \<Rightarrow> Humanoid_init (self # args)
         | HumanoidFlagrun \<Rightarrow> HumanoidFlagrun_init (self # args)
         | HumanoidFlagrunHarder \<Rightarrow> HumanoidFlagrunHarder_init (self # args)
         | Atlas \<Rightarrow> Atlas_init (self # args))"

text \<open>The dimensions each constructor declares (the Flagrun classes inherit Humanoid's
  constructor call).\<close>

fun declared_action_dim :: "robot_class \<Rightarrow> nat" where
  "declared_action_dim Hopper = 3"
| "declared_action_dim Walker2D = 6"
| "declared_action_dim HalfCheetah = 6"
| "declared_action_dim Ant = 8"
| "declared_action_dim Humanoid = 17"
| "declared_action_dim HumanoidFlagrun = 17"
| "declared_action_dim HumanoidFlagrunHarder = 17"
| "declared_action_dim Atlas = 30"

fun declared_obs_dim :: "robot_class \<Rightarrow> nat" where
  "declared_obs_dim Hopper = 15"
| "declared_obs_dim Walker2D = 22"
| "declared_obs_dim HalfCheetah = 26"
| "declared_obs_dim Ant = 28"
| "declared_obs_dim Humanoid = 44"
| "declared_obs_dim HumanoidFlagrun = 44"
| "declared_obs_dim HumanoidFlagrunHarder = 44"
| "declared_obs_dim Atlas = 70"

section \<open>A concrete robot\<close>

text \<open>
  A robot standing at the origin, used to run the functions above on concrete inputs:
  three joints and four parts (the shape of the hopper model), the torso at height
  1.25, facing the far target of \<^verbatim>\<open>WalkerBase.__init__\<close>, nothing moving.
\<close>

definition still_joint :: joint where
  "still_joint = \<lparr>power_coef = 100, current_relative_position = (0, 0)\<rparr>"

definition still_part :: body_part where
  "still_part = \<lparr>xyz = (0, 0, 1.25), rpy = (0, 0, 0), speed = (0, 0, 0)\<rparr>"

definition stadium :: scene_t where
  "stadium = \<lparr>dt = 1 / 60, stadium_halflen = 26, stadium_halfwidth = 12\<rparr>"

definition robot0 :: robot where
  "robot0 =
     \<lparr>cls = Hopper, power_val = 0.75, camera_x = 0,
      start_pos_x = 0, start_pos_y = 0, start_pos_z = 0,
      walk_target_x = 1000, walk_target_y = 0,
      model_file = ''hopper.xml'', robot_name = ''torso'', action_dim = 3, obs_dim = 15,
      ordered_joints = [0, 1, 2],
      jdict = [(''thigh_joint'', 0), (''leg_joint'', 1), (''foot_joint'', 2)],
      parts = [(''torso'', 0), (''thigh'', 1), (''leg'', 2), (''foot'', 3)],
      robot_body = 0,
      joint_store = (\<lambda>h. still_joint), part_store = (\<lambda>h. still_part),
      scene = stadium, np_random = (\<lambda>k. 1 / 2), engine = [], frame = 0,
      feet = [3], feet_contact = [0], initial_z = None,
      joint_speeds = [], joints_at_limit = 0,
      body_xyz = (0, 0, 1.25), body_rpy = (0, 0, 0),
      walk_target_theta = 0, walk_target_dist = 1000,
      motor_names = [], motor_power = [], motors = [],
      flag = None, flag_timeout = 200, potential = 0,
      aggressive_cube = None, on_ground_frame_counter = 0,
      crawl_start_potential = None, crawl_ignored_potential = 0,
      random_yaw = False, head = 0\<rparr>"

text \<open>A HumanoidFlagrunHarder that has been lying at height 0.4 for 169 frames.\<close>

definition fallen :: robot where
  "fallen = robot0\<lparr>cls := HumanoidFlagrunHarder, frame := 120, on_ground_frame_counter := 169,
                   body_xyz := (0, 0, 0.4)\<rparr>"

text \<open>A HumanoidFlagrunHarder that stands, and the same robot after it has crawled from
  10 to 8 metres from its target, lying below 0.8.\<close>

definition harder0 :: robot where
  "harder0 = robot0\<lparr>cls := HumanoidFlagrunHarder\<rparr>"

definition crawled :: robot where
  "crawled = harder0\<lparr>body_xyz := (0, 0, 0.3), walk_target_dist := 8,
                      crawl_start_potential := Some (-600), crawl_ignored_potential := 120\<rparr>"

text \<open>
  A Humanoid with the seventeen joints its reset names and three parts, before its reset
  (\<open>humanoid0\<close>), after \<^verbatim>\<open>robot_specific_reset\<close> (\<open>humanoid1\<close>) and after the
  \<^verbatim>\<open>calc_state\<close> that follows (\<open>humanoid2\<close>). Every draw of the random source is 1/2, so
  every joint is reset to position 0.
\<close>

definition humanoid_joint_names :: "string list" where
  "humanoid_joint_names =
     [''abdomen_z'', ''abdomen_y'', ''abdomen_x'',
      ''right_hip_x'', ''right_hip_z'', ''right_hip_y'', ''right_knee'',
      ''left_hip_x'', ''left_hip_z'', ''left_hip_y'', ''left_knee'',
      ''right_shoulder1'', ''right_shoulder2'', ''right_elbow'',
      ''left_shoulder1'', ''left_shoulder2'', ''left_elbow'']"

definition humanoid0 :: robot where
  "humanoid0 =
     robot0\<lparr>cls := Humanoid, power_val := 0.41,
            model_file := ''humanoid_symmetric.xml'', action_dim := 17, obs_dim := 44,
            ordered_joints := [0..<17], jdict := zip humanoid_joint_names [0..<17],
            parts := [(''torso'', 0), (''right_foot'', 1), (''left_foot'', 2)]\<rparr>"

definition humanoid1 :: robot where
  "humanoid1 =
     humanoid0\<lparr>engine := map (\<lambda>j. ResetCurrentPosition j 0 0) [0..<17] @ [ActorIntroduce],
               feet := [1, 2], feet_contact := [0, 0], initial_z := Some 0.8,
               motor_names := humanoid_joint_names,
               motor_power := [100, 100, 100, 100, 100, 300, 200, 100, 100, 300, 200,
                               75, 75, 75, 75, 75, 75],
               motors := [0..<17]\<rparr>"

definition humanoid2 :: robot where
  "humanoid2 =
     humanoid1\<lparr>joint_speeds :=
                 [0, 0, 0, 0, 0, 0, 0, 0, 0, 0, 0, 0, 0, 0, 0, 0, 0], joints_at_limit := 0,
               body_xyz := (0, 0, 1.25), body_rpy := (0, 0, 0),
               walk_target_theta := 0, walk_target_dist := 1000\<rparr>"

text \<open>The hopper-shaped \<open>robot0\<close> after \<^verbatim>\<open>robot_specific_reset\<close>.\<close>

definition robot1 :: robot where
  "robot1 =
     robot0\<lparr>engine := [ResetCurrentPosition 0 0 0, ResetCurrentPosition 1 0 0,
                       ResetCurrentPosition 2 0 0, ActorIntroduce],
            feet := [3], feet_contact := [0], initial_z := None\<rparr>"

text \<open>
  Two HumanoidFlagrun robots standing at the origin after their reset. \<open>flagrun_far\<close>
  has its flag 1.25 away while the distance stored by an earlier \<^verbatim>\<open>calc_state\<close> is 0.99;
  \<open>flagrun_far1\<close> is what \<^verbatim>\<open>calc_state\<close> makes of it. \<open>flagrun_near\<close> has its flag 0.5
  away while the stored distance is 1.5; \<open>flagrun_near1\<close> is the state after the first
  pass of \<^verbatim>\<open>Humanoid.calc_state\<close> and \<open>flagrun_near2\<close> the state when \<^verbatim>\<open>calc_state\<close>
  returns. Both draws of the random source are 1/2, which puts the new flag at the
  centre of the stadium.
\<close>

definition flagrun_far :: robot where
  "flagrun_far =
     humanoid1\<lparr>cls := HumanoidFlagrun, walk_target_x := 1.25, walk_target_dist := 0.99,
               flag := Some (1.25, 0, 0.2), flag_timeout := 100\<rparr>"

definition flagrun_far1 :: robot where
  "flagrun_far1 =
     flagrun_far\<lparr>flag_timeout := 99,
                 joint_speeds :=
                   [0, 0, 0, 0, 0, 0, 0, 0, 0, 0, 0, 0, 0, 0, 0, 0, 0],
                 joints_at_limit := 0, body_xyz := (0, 0, 1.25), body_rpy := (0, 0, 0),
                 walk_target_theta := 0, walk_target_dist := 1.25\<rparr>"

definition flagrun_near :: robot where
  "flagrun_near =
     humanoid1\<lparr>cls := HumanoidFlagrun, walk_target_x := 0.5, walk_target_dist := 1.5,
               flag := Some (0.5, 0, 0.2), flag_timeout := 100, potential := - 90\<rparr>"

definition flagrun_near1 :: robot where
  "flagrun_near1 =
     flagrun_near\<lparr>flag_timeout := 99,
                  joint_speeds :=
                    [0, 0, 0, 0, 0, 0, 0, 0, 0, 0, 0, 0, 0, 0, 0, 0, 0],
                  joints_at_limit := 0, body_xyz := (0, 0, 1.25), body_rpy := (0, 0, 0),
                  walk_target_theta := 0, walk_target_dist := 0.5\<rparr>"

definition flagrun_near2 :: robot where
  "flagrun_near2 =
     flagrun_near1\<lparr>walk_target_x := 0, walk_target_y := 0,
                   engine := engine flagrun_near1 @ [GetSphere 0 0 0.2],
                   flag := Some (0, 0, 0.2), flag_timeout := 200,
                   walk_target_theta := 0, walk_target_dist := 0, potential := 0\<rparr>"

text \<open>An Atlas whose pelvis is at height 1.0 and whose head is at height 1.7, with its
  left knee straight at its limit.\<close>

definition atlas0 :: robot where
  "atlas0 =
     robot0\<lparr>cls := Atlas, power_val := 2.9, robot_name := ''pelvis'',
            jdict := [(''l_leg_kny'', 0), (''r_leg_kny'', 1), (''back_bkz'', 2)],
            parts := [(''pelvis'', 0), (''head'', 1), (''r_foot'', 2), (''l_foot'', 3)],
            joint_store := (\<lambda>h. if h = 0 then still_joint\<lparr>current_relative_position := (1, 0)\<rparr>
                                else still_joint),
            part_store := (\<lambda>h. if h = 1 then still_part\<lparr>xyz := (0, 0, 1.7)\<rparr>
                               else still_part\<lparr>xyz := (0, 0, 1.0)\<rparr>),
            feet := [2, 3], feet_contact := [0, 0], initial_z := Some 1.5, head := 1\<rparr>"

text \<open>The same Atlas with the pelvis and the head both at 1.7 and the left knee at the
  normalised position 0.99000001.\<close>

definition atlas_edge :: robot where
  "atlas_edge =
     atlas0\<lparr>joint_store :=
              (\<lambda>h. if h = 0 then still_joint\<lparr>current_relative_position := (0.99000001, 0)\<rparr>
                   else still_joint),
            part_store := (\<lambda>h. still_part\<lparr>xyz := (0, 0, 1.7)\<rparr>)\<rparr>"

section \<open>A driver for the potential of HumanoidFlagrunHarder\<close>

text \<open>
  Between two calls of \<^verbatim>\<open>calc_potential\<close> the environment steps the physics and calls
  \<^verbatim>\<open>calc_state\<close>, which assigns \<^verbatim>\<open>body_xyz\<close> and \<^verbatim>\<open>walk_target_dist\<close>. A tick is the
  pair (height of the body, distance to the target) seen at one step; \<open>observe\<close>
  assigns it, and \<open>progress_trace\<close> runs \<^verbatim>\<open>calc_potential\<close> once per tick and lists
  the progress component of each returned potential, that is the returned value less
  the term \<^verbatim>\<open>self.potential_leak()*100\<close> added to it in the \<^verbatim>\<open>return\<close>.
\<close>

definition observe :: "robot \<Rightarrow> real \<times> real \<Rightarrow> robot" where
  "observe s t =
     s\<lparr>body_xyz := (fst (body_xyz s), fst (snd (body_xyz s)), fst t), walk_target_dist := snd t\<rparr>"

fun progress_trace :: "robot \<Rightarrow> (real \<times> real) list \<Rightarrow> real list \<times> robot" where
  "progress_trace s [] = ([], s)"
| "progress_trace s (t # ts) =
     (case HumanoidFlagrunHarder_calc_potential (observe s t) of (v, s1) \<Rightarrow>
      case progress_trace s1 ts of (vs, s2) \<Rightarrow>
        ((v - potential_leak (observe s t) * 100) # vs, s2))"

section \<open>The height of the torso and its reference\<close>

text \<open>\<open>torso_z\<close> is the height \<^verbatim>\<open>calc_state\<close> reads, \<^verbatim>\<open>self.robot_body.pose().xyz()[2]\<close>;
  \<open>latched_z\<close> is the value \<^verbatim>\<open>self.initial_z\<close> holds once the \<^verbatim>\<open>if\<close> of \<^verbatim>\<open>calc_state\<close>
  has run: the value it had, or the current height when it was \<^verbatim>\<open>None\<close>.\<close>

definition torso_z :: "robot \<Rightarrow> real" where
  "torso_z s = snd (snd (xyz (part_store s (robot_body s))))"

definition latched_z :: "robot \<Rightarrow> real" where
  "latched_z s = (case initial_z s of None \<Rightarrow> torso_z s | Some v \<Rightarrow> v)"

text \<open>\<open>body_centre\<close> is the triple \<^verbatim>\<open>calc_state\<close> assigns to \<^verbatim>\<open>self.body_xyz\<close>: the means of
  the parts' x and y, and the height of the torso.\<close>

definition body_centre :: "robot \<Rightarrow> vec3" where
  "body_centre s =
     (let parts_xyz = concat (map (\<lambda>(n, h). case xyz (part_store s h) of (x, y, z) \<Rightarrow> [x, y, z])
                                  (parts s))
      in (mean (stride 3 parts_xyz), mean (stride 3 (drop 1 parts_xyz)), torso_z s))"

section \<open>The cast to float32 at the numbers used below\<close>

text \<open>Within one binade the cast rounds to a multiple of the binade's spacing; 0 and 1 are
  float32 numbers, and 0.99 and 0.99000001 are cast to the same one, which lies above
  0.99.\<close>

lemma float32_0: "float32 0 = 0"
  by (simp add: float32_def)

lemma float32_binade:
  assumes "2 powr of_int k \<le> \<bar>x\<bar>" and "\<bar>x\<bar> < 2 powr (of_int k + 1)" and "- 126 \<le> k"
  shows "float32 x =
           of_int (round_half_even (x / 2 powr (of_int k - 23))) * 2 powr (of_int k - 23)"
proof -
  have pos: "0 < \<bar>x\<bar>"
    using assms(1) powr_gt_zero [of 2 "of_int k"] by linarith
  then have "\<lfloor>log 2 \<bar>x\<bar>\<rfloor> = k"
    using assms(1,2) by (simp add: floor_log_eq_powr_iff)
  moreover have "x \<noteq> 0" using pos by simp
  ultimately show ?thesis
    using assms(3) by (simp add: float32_def Let_def max_def)
qed

lemma p24: "2 powr (- 24) = (1 / 16777216 :: real)"
  by (simp add: powr_minus_divide)

lemma p23: "2 powr (- 23) = (1 / 8388608 :: real)"
  by (simp add: powr_minus_divide)

lemma float32_1: "float32 1 = 1"
  using float32_binade [of 0 1]
  by (simp add: p23 round_half_even_def)

lemma float32_099: "float32 0.99 = 4152361 / 4194304"
proof -
  have "float32 0.99 = of_int (round_half_even (0.99 / 2 powr (of_int (- 1) - 23))) * 2 powr (of_int (- 1) - 23)"
    by (rule float32_binade) (simp_all add: powr_minus_divide)
  moreover have "\<lfloor>(1660944384 / 100 :: real)\<rfloor> = 16609443"
    by (simp add: floor_eq_iff)
  ultimately show ?thesis
    by (simp add: p24 round_half_even_def Let_def)
qed

lemma float32_edge: "float32 0.99000001 = 4152361 / 4194304"
proof -
  have "float32 0.99000001 = of_int (round_half_even (0.99000001 / 2 powr (of_int (- 1) - 23))) * 2 powr (of_int (- 1) - 23)"
    by (rule float32_binade) (simp_all add: powr_minus_divide)
  moreover have "\<lfloor>(0.99000001 * 16777216 :: real)\<rfloor> = 16609444"
    by (simp add: floor_eq_iff)
  ultimately show ?thesis
    by (simp add: p24 round_half_even_def Let_def)
qed

text \<open>The same two facts with the arguments written as fractions.\<close>

lemma float32_099_fraction: "float32 (99 / 100) = 4152361 / 4194304"
  using float32_099 by simp

lemma float32_edge_fraction: "float32 (99000001 / 100000000) = 4152361 / 4194304"
  using float32_edge by simp

section \<open>apply\_action: clipped torques and the finiteness assertion\<close>

lemma finite_values_map_Fl: "finite_values (map Fl xs) = Some xs"
  by (induction xs) simp_all

lemma finite_values_Some_iff: "finite_values a = Some xs \<longleftrightarrow> a = map Fl xs"
proof
  show "finite_values a = Some xs \<Longrightarrow> a = map Fl xs"
    by (induction a arbitrary: xs rule: finite_values.induct) (auto split: option.splits)
qed (simp add: finite_values_map_Fl)

lemma finite_values_None_iff: "finite_values a = None \<longleftrightarrow> \<not> list_all isfinite a"
  by (induction a rule: finite_values.induct) (auto simp: isfinite_def split: option.splits)

lemma set_motor_torques_run:
  "\<forall>(n, j) \<in> set njs. n < length xs \<Longrightarrow>
   \<exists>s'. set_motor_torques s xs njs = Inr s' \<and>
        engine s' = engine s @
          map (\<lambda>(n, j). SetMotorTorque j (power_val s * power_coef (joint_store s j) * np_clip (xs ! n) (-1) 1)) njs \<and>
        power_val s' = power_val s \<and> joint_store s' = joint_store s"
proof (induction njs arbitrary: s)
  case Nil
  then show ?case by simp
next
  case (Cons p njs)
  obtain n j where p: "p = (n, j)" by (cases p)
  let ?s1 = "emit (SetMotorTorque j (power_val s * power_coef (joint_store s j) * np_clip (xs ! n) (-1) 1)) s"
  from Cons.prems p have n: "n < length xs" and rest: "\<forall>(n, j) \<in> set njs. n < length xs"
    by auto
  from Cons.IH [OF rest, of ?s1] obtain s' where
    "set_motor_torques ?s1 xs njs = Inr s'"
    "engine s' = engine ?s1 @
          map (\<lambda>(n, j). SetMotorTorque j (power_val ?s1 * power_coef (joint_store ?s1 j) * np_clip (xs ! n) (-1) 1)) njs"
    "power_val s' = power_val ?s1" "joint_store s' = joint_store ?s1"
    by blast
  with n p show ?case by (simp add: emit_def)
qed

lemma enumerate_torques:
  "map (\<lambda>(n, j). f n j) (enumerate 0 js) = map (\<lambda>n. f n (js ! n)) [0..<length js]"
  by (rule nth_equalityI) (simp_all add: nth_enumerate_eq)

lemma WalkerBase_apply_action_finite:
  assumes "length (ordered_joints s) \<le> length xs"
  shows "\<exists>s'. WalkerBase_apply_action s (map Fl xs) = Inr s' \<and>
          engine s' = engine s @
            map (\<lambda>n. SetMotorTorque (ordered_joints s ! n)
                       (power_val s * power_coef (joint_store s (ordered_joints s ! n)) * np_clip (xs ! n) (-1) 1))
                [0..<length (ordered_joints s)]"
proof -
  have "\<forall>(n, j) \<in> set (enumerate 0 (ordered_joints s)). n < length xs"
    using assms by (auto simp: in_set_enumerate_eq)
  from set_motor_torques_run [OF this, of s] show ?thesis
    by (auto simp: WalkerBase_apply_action_def finite_values_map_Fl enumerate_torques)
qed

lemma apply_action_WalkerBase:
  "cls s \<in> {Hopper, Walker2D, HalfCheetah, Ant, Atlas} \<Longrightarrow> apply_action s a = WalkerBase_apply_action s a"
  by (auto simp: apply_action_def)

text \<open>An action vector shorter than the list of joints runs into \<^verbatim>\<open>a[n]\<close> past its
  end.\<close>

lemma short_action_IndexError:
  "apply_action robot0 [Fl 0, Fl 0] = Inl IndexError"
  by (simp add: apply_action_def WalkerBase_apply_action_def robot0_def enumerate_eq_zip upt_rec emit_def)

text \<open>
  Claim C1. On a robot of a class that inherits \<^verbatim>\<open>WalkerBase.apply_action\<close> (Hopper,
  Walker2D, HalfCheetah, Ant, Atlas), an action vector all of whose entries are finite,
  with an entry for every joint, is accepted: the call returns normally and the commands
  it sends are, joint by joint in the order of \<^verbatim>\<open>ordered_joints\<close>, the torque
  \<open>power * power_coef[n] * clip(a[n], -1, 1)\<close>. The clipping leaves \<open>-1\<close> and \<open>1\<close> and
  everything between them unchanged and maps what lies beyond to the nearer bound. An
  action vector with an entry that is NaN or infinite fails the assertion.
\<close>

theorem apply_action_torque:
  assumes "cls s \<in> {Hopper, Walker2D, HalfCheetah, Ant, Atlas}"
  shows "(length (ordered_joints s) \<le> length xs \<longrightarrow>
           (\<exists>s'. apply_action s (map Fl xs) = Inr s' \<and>
              engine s' = engine s @
                map (\<lambda>n. SetMotorTorque (ordered_joints s ! n)
                       (power_val s * power_coef (joint_store s (ordered_joints s ! n)) * np_clip (xs ! n) (-1) 1))
                    [0..<length (ordered_joints s)])) \<and>
         (\<not> list_all isfinite a \<longrightarrow> apply_action s a = Inl AssertionError) \<and>
         np_clip (-1) (-1) 1 = -1 \<and> np_clip 1 (-1) 1 = 1 \<and>
         (x \<le> -1 \<longrightarrow> np_clip x (-1) 1 = -1) \<and>
         (1 \<le> x \<longrightarrow> np_clip x (-1) 1 = 1) \<and>
         (-1 \<le> x \<and> x \<le> 1 \<longrightarrow> np_clip x (-1) 1 = x)"
proof -
  have fin: "length (ordered_joints s) \<le> length xs \<longrightarrow>
           (\<exists>s'. apply_action s (map Fl xs) = Inr s' \<and>
              engine s' = engine s @
                map (\<lambda>n. SetMotorTorque (ordered_joints s ! n)
                       (power_val s * power_coef (joint_store s (ordered_joints s ! n)) * np_clip (xs ! n) (-1) 1))
                    [0..<length (ordered_joints s)])"
    using WalkerBase_apply_action_finite [of s xs] apply_action_WalkerBase [OF assms] by simp
  have nonfin: "\<not> list_all isfinite a \<longrightarrow> apply_action s a = Inl AssertionError"
    using finite_values_None_iff [of a] apply_action_WalkerBase [OF assms]
    by (auto simp: WalkerBase_apply_action_def)
  have clip: "np_clip (-1) (-1) 1 = -1 \<and> np_clip 1 (-1) 1 = 1 \<and>
         (x \<le> -1 \<longrightarrow> np_clip x (-1) 1 = -1) \<and>
         (1 \<le> x \<longrightarrow> np_clip x (-1) 1 = 1) \<and>
         (-1 \<le> x \<and> x \<le> 1 \<longrightarrow> np_clip x (-1) 1 = x)"
    by (simp add: np_clip_def)
  from fin nonfin clip show ?thesis by blast
qed

theorem apply_action_torque_witness:
  "cls robot0 \<in> {Hopper, Walker2D, HalfCheetah, Ant, Atlas} \<and>
   length (ordered_joints robot0) \<le> length [2, -1, 1 / 2 :: real] \<and>
   (\<exists>s'. apply_action robot0 [Fl 2, Fl (-1), Fl (1 / 2)] = Inr s' \<and>
      engine s' = [SetMotorTorque 0 75, SetMotorTorque 1 (-75), SetMotorTorque 2 (75 / 2)]) \<and>
   \<not> list_all isfinite [Fl 0, NaN, Fl 0] \<and>
   apply_action robot0 [Fl 0, NaN, Fl 0] = Inl AssertionError \<and>
   apply_action robot0 [PInf, Fl 0, Fl 0] = Inl AssertionError"
proof -
  have c: "cls robot0 \<in> {Hopper, Walker2D, HalfCheetah, Ant, Atlas}"
    by (simp add: robot0_def)
  have l: "length (ordered_joints robot0) \<le> length [2, -1, 1 / 2 :: real]"
    by (simp add: robot0_def)
  have n: "\<not> list_all isfinite [Fl 0, NaN, Fl 0]" "\<not> list_all isfinite [PInf, Fl 0, Fl 0]"
    by (simp_all add: isfinite_def)
  have up: "[0..<3] = [0, 1, 2]" by (simp add: upt_rec)
  from apply_action_torque [OF c, of "[2, -1, 1 / 2]" "[Fl 0, NaN, Fl 0]" 0] l n(1)
  have "\<exists>s'. apply_action robot0 [Fl 2, Fl (-1), Fl (1 / 2)] = Inr s' \<and>
      engine s' = [SetMotorTorque 0 75, SetMotorTorque 1 (-75), SetMotorTorque 2 (75 / 2)]"
    and "apply_action robot0 [Fl 0, NaN, Fl 0] = Inl AssertionError"
    by (simp_all add: robot0_def still_joint_def np_clip_def up)
  moreover from apply_action_torque [OF c, of "[]" "[PInf, Fl 0, Fl 0]" 0] n(2)
  have "apply_action robot0 [PInf, Fl 0, Fl 0] = Inl AssertionError" by simp
  ultimately show ?thesis using c l n by blast
qed

section \<open>potential\_leak\<close>

lemma np_clip_mono: "x \<le> y \<Longrightarrow> np_clip x lo hi \<le> np_clip y lo hi"
  by (simp add: np_clip_def min_def max_def)

text \<open>
  Claim C6. \<^verbatim>\<open>potential_leak()\<close> does not decrease when the height of the body grows
  (for any two heights, so in particular over the interval from 0 to 0.8), it is exactly
  1.0 when the height is 0 or below, and exactly 2.0 when the height is 0.8 or above.
\<close>

theorem potential_leak_monotone:
  "(snd (snd (body_xyz s)) \<le> snd (snd (body_xyz t)) \<longrightarrow> potential_leak s \<le> potential_leak t) \<and>
   (snd (snd (body_xyz s)) \<le> 0 \<longrightarrow> potential_leak s = 1.0) \<and>
   (0.8 \<le> snd (snd (body_xyz s)) \<longrightarrow> potential_leak s = 2.0)"
proof -
  have mono: "snd (snd (body_xyz s)) \<le> snd (snd (body_xyz t)) \<longrightarrow> potential_leak s \<le> potential_leak t"
    using np_clip_mono [of "snd (snd (body_xyz s))" "snd (snd (body_xyz t))" 0 "0.8"]
    by (simp add: potential_leak_def divide_right_mono)
  have low: "snd (snd (body_xyz s)) \<le> 0 \<longrightarrow> potential_leak s = 1.0"
    by (simp add: potential_leak_def np_clip_def)
  have high: "0.8 \<le> snd (snd (body_xyz s)) \<longrightarrow> potential_leak s = 2.0"
    by (simp add: potential_leak_def np_clip_def)
  from mono low high show ?thesis by blast
qed

theorem potential_leak_monotone_witness:
  "snd (snd (body_xyz (observe robot0 (0.2, 5)))) \<le> snd (snd (body_xyz (observe robot0 (0.6, 5)))) \<and>
   potential_leak (observe robot0 (0.2, 5)) = 1.25 \<and>
   potential_leak (observe robot0 (0.6, 5)) = 1.75 \<and>
   potential_leak (observe robot0 (0.2, 5)) \<le> potential_leak (observe robot0 (0.6, 5)) \<and>
   snd (snd (body_xyz (observe robot0 (0, 5)))) \<le> 0 \<and>
   potential_leak (observe robot0 (0, 5)) = 1 \<and>
   0.8 \<le> snd (snd (body_xyz robot0)) \<and> potential_leak robot0 = 2"
proof -
  have vals: "potential_leak (observe robot0 (0.2, 5)) = 1.25"
     "potential_leak (observe robot0 (0.6, 5)) = 1.75"
    by (simp_all add: potential_leak_def observe_def np_clip_def)
  have h: "snd (snd (body_xyz (observe robot0 (0.2, 5)))) \<le> snd (snd (body_xyz (observe robot0 (0.6, 5))))"
     "snd (snd (body_xyz (observe robot0 (0, 5)))) \<le> 0"
     "0.8 \<le> snd (snd (body_xyz robot0))"
    by (simp_all add: observe_def robot0_def)
  from potential_leak_monotone [of "observe robot0 (0.2, 5)" "observe robot0 (0.6, 5)"]
       potential_leak_monotone [of "observe robot0 (0, 5)" robot0]
       potential_leak_monotone [of robot0 robot0] h vals
  show ?thesis by simp
qed

section \<open>The alive bonus of HalfCheetah\<close>

text \<open>
  Claim C7. With the six entries of \<^verbatim>\<open>feet_contact\<close> that \<^verbatim>\<open>robot_specific_reset\<close> creates
  for the six names of HalfCheetah's \<^verbatim>\<open>foot_list\<close>, \<^verbatim>\<open>alive_bonus(z, pitch)\<close> returns -1
  exactly when the magnitude of the pitch is 1.0 or more or one of the entries 1, 2, 4, 5
  (fshin, fthigh, bshin, bthigh) is not zero, and +1 otherwise; the argument \<open>z\<close> does
  not change the result.
\<close>

theorem HalfCheetah_alive_bonus_iff:
  assumes "length (feet_contact s) = length (foot_list HalfCheetah)"
  shows "HalfCheetah_alive_bonus s z pitch =
           Inr (if 1.0 \<le> \<bar>pitch\<bar> \<or> feet_contact s ! 1 \<noteq> 0 \<or> feet_contact s ! 2 \<noteq> 0 \<or>
                   feet_contact s ! 4 \<noteq> 0 \<or> feet_contact s ! 5 \<noteq> 0
                then -1 else 1) \<and>
         HalfCheetah_alive_bonus s z' pitch = HalfCheetah_alive_bonus s z pitch"
  using assms by (simp add: HalfCheetah_alive_bonus_def list_get_def not_less)

theorem HalfCheetah_alive_bonus_iff_witness:
  "length (feet_contact (robot0\<lparr>cls := HalfCheetah, feet_contact := [1, 0, 0, 1, 0, 0]\<rparr>)) =
     length (foot_list HalfCheetah) \<and>
   HalfCheetah_alive_bonus (robot0\<lparr>cls := HalfCheetah, feet_contact := [1, 0, 0, 1, 0, 0]\<rparr>) 0.1 0.5 = Inr 1 \<and>
   HalfCheetah_alive_bonus (robot0\<lparr>cls := HalfCheetah, feet_contact := [1, 0, 0, 1, 0, 0]\<rparr>) 0.1 (-1) = Inr (-1) \<and>
   length (feet_contact (robot0\<lparr>cls := HalfCheetah, feet_contact := [0, 0, 0, 0, 1, 0]\<rparr>)) =
     length (foot_list HalfCheetah) \<and>
   HalfCheetah_alive_bonus (robot0\<lparr>cls := HalfCheetah, feet_contact := [0, 0, 0, 0, 1, 0]\<rparr>) 0.7 0 = Inr (-1)"
proof -
  let ?s = "robot0\<lparr>cls := HalfCheetah, feet_contact := [1, 0, 0, 1, 0, 0]\<rparr>"
  let ?t = "robot0\<lparr>cls := HalfCheetah, feet_contact := [0, 0, 0, 0, 1, 0]\<rparr>"
  have ls: "length (feet_contact ?s) = length (foot_list HalfCheetah)"
    and lt: "length (feet_contact ?t) = length (foot_list HalfCheetah)"
    by simp_all
  from HalfCheetah_alive_bonus_iff [OF ls, of "0.1" "0.5"]
       HalfCheetah_alive_bonus_iff [OF ls, of "0.1" "-1"]
       HalfCheetah_alive_bonus_iff [OF lt, of "0.7" 0] ls lt
  show ?thesis by simp
qed

section \<open>The ground-recovery counter of HumanoidFlagrunHarder\<close>

text \<open>Throwing the cube changes neither the counter nor the position of the body.\<close>

lemma attack_frame:
  "on_ground_frame_counter (attack s) = on_ground_frame_counter s \<and>
   body_xyz (attack s) = body_xyz s"
  by (simp add: attack_def uniform_def emit_def Let_def split: prod.splits)

text \<open>
  Claim C4. A call of \<^verbatim>\<open>HumanoidFlagrunHarder.alive_bonus\<close> with \<open>z\<close> below 0.8 adds one
  to \<^verbatim>\<open>on_ground_frame_counter\<close>; a call with \<open>z\<close> at 0.8 or above takes one off a
  positive counter and leaves a counter of 0 at 0, so a counter that is not negative
  stays so. The value returned is \<^verbatim>\<open>potential_leak()\<close> when the counter after the update
  is below 170, and -1 when it has reached 170.
\<close>

theorem alive_bonus_counter:
  assumes "HumanoidFlagrunHarder_alive_bonus s z pitch = (r, s')"
  shows "(z < 0.8 \<longrightarrow> on_ground_frame_counter s' = on_ground_frame_counter s + 1) \<and>
         (0.8 \<le> z \<and> 0 < on_ground_frame_counter s \<longrightarrow>
            on_ground_frame_counter s' = on_ground_frame_counter s - 1) \<and>
         (0.8 \<le> z \<and> on_ground_frame_counter s = 0 \<longrightarrow> on_ground_frame_counter s' = 0) \<and>
         (0 \<le> on_ground_frame_counter s \<longrightarrow> 0 \<le> on_ground_frame_counter s') \<and>
         (on_ground_frame_counter s' < 170 \<longrightarrow> r = potential_leak s) \<and>
         (170 \<le> on_ground_frame_counter s' \<longrightarrow> r = -1)"
proof -
  define s1 where "s1 = (if frame s mod 30 = 0 \<and> frame s > 100 \<and> on_ground_frame_counter s = 0
                         then attack s else s)"
  define s2 where "s2 = (if z < 0.8
                         then s1\<lparr>on_ground_frame_counter := on_ground_frame_counter s1 + 1\<rparr>
                         else if on_ground_frame_counter s1 > 0
                         then s1\<lparr>on_ground_frame_counter := on_ground_frame_counter s1 - 1\<rparr>
                         else s1)"
  have run: "HumanoidFlagrunHarder_alive_bonus s z pitch =
               (if on_ground_frame_counter s2 < 170 then potential_leak s2 else -1, s2)"
    by (simp only: HumanoidFlagrunHarder_alive_bonus_def Let_def s1_def s2_def)
  have c1: "on_ground_frame_counter s1 = on_ground_frame_counter s"
    and b1: "body_xyz s1 = body_xyz s"
    by (simp_all add: s1_def attack_frame)
  have c2: "on_ground_frame_counter s2 =
              (if z < 0.8 then on_ground_frame_counter s + 1
               else if on_ground_frame_counter s > 0 then on_ground_frame_counter s - 1
               else on_ground_frame_counter s)"
    using c1 by (simp add: s2_def)
  have "body_xyz s2 = body_xyz s"
    using b1 by (simp add: s2_def)
  then have leak: "potential_leak s2 = potential_leak s"
    by (simp add: potential_leak_def)
  from assms [unfolded run] have "s' = s2"
    and "r = (if on_ground_frame_counter s2 < 170 then potential_leak s2 else -1)"
    by auto
  with c2 leak show ?thesis by auto
qed

theorem alive_bonus_counter_witness:
  "HumanoidFlagrunHarder_alive_bonus (fallen\<lparr>on_ground_frame_counter := 168\<rparr>) 0.4 0 =
     (1.5, fallen) \<and>
   HumanoidFlagrunHarder_alive_bonus fallen 0.4 0 = (-1, fallen\<lparr>on_ground_frame_counter := 170\<rparr>) \<and>
   HumanoidFlagrunHarder_alive_bonus fallen 0.9 0 = (1.5, fallen\<lparr>on_ground_frame_counter := 168\<rparr>) \<and>
   HumanoidFlagrunHarder_alive_bonus (fallen\<lparr>frame := 121, on_ground_frame_counter := 0\<rparr>) 0.9 0 =
     (1.5, fallen\<lparr>frame := 121, on_ground_frame_counter := 0\<rparr>)"
proof -
  have leak: "potential_leak fallen = 1.5"
    by (simp add: potential_leak_def fallen_def np_clip_def)
  have a: "HumanoidFlagrunHarder_alive_bonus (fallen\<lparr>on_ground_frame_counter := 168\<rparr>) 0.4 0 =
     (if (169::int) < 170 then potential_leak fallen else -1, fallen)"
    by (simp add: HumanoidFlagrunHarder_alive_bonus_def fallen_def potential_leak_def)
  have b: "HumanoidFlagrunHarder_alive_bonus fallen 0.4 0 =
     (-1, fallen\<lparr>on_ground_frame_counter := 170\<rparr>)"
    by (simp add: HumanoidFlagrunHarder_alive_bonus_def fallen_def potential_leak_def)
  have c: "HumanoidFlagrunHarder_alive_bonus fallen 0.9 0 =
     (potential_leak fallen, fallen\<lparr>on_ground_frame_counter := 168\<rparr>)"
    by (simp add: HumanoidFlagrunHarder_alive_bonus_def fallen_def potential_leak_def)
  have d: "HumanoidFlagrunHarder_alive_bonus (fallen\<lparr>frame := 121, on_ground_frame_counter := 0\<rparr>) 0.9 0 =
     (potential_leak fallen, fallen\<lparr>frame := 121, on_ground_frame_counter := 0\<rparr>)"
    by (simp add: HumanoidFlagrunHarder_alive_bonus_def fallen_def potential_leak_def)
  from alive_bonus_counter [OF a] alive_bonus_counter [OF b] alive_bonus_counter [OF c]
       alive_bonus_counter [OF d] a b c d leak
  show ?thesis by simp
qed

section \<open>Crawl suppression in the potential of HumanoidFlagrunHarder\<close>

text \<open>One call of \<^verbatim>\<open>calc_potential\<close> on a robot that is down, and one on a robot that is
  up.\<close>

lemma down_tick:
  assumes "fst t < 0.8"
  shows "HumanoidFlagrunHarder_calc_potential (observe s t) =
           ((case crawl_start_potential s of
               None \<Rightarrow> - snd t / dt (scene s) - crawl_ignored_potential s
             | Some c \<Rightarrow> c) + potential_leak (observe s t) * 100,
            (observe s t)
              \<lparr>crawl_start_potential :=
                  Some (case crawl_start_potential s of
                          None \<Rightarrow> - snd t / dt (scene s) - crawl_ignored_potential s
                        | Some c \<Rightarrow> c),
               crawl_ignored_potential :=
                  - snd t / dt (scene s) -
                  (case crawl_start_potential s of
                     None \<Rightarrow> - snd t / dt (scene s) - crawl_ignored_potential s
                   | Some c \<Rightarrow> c)\<rparr>)"
  using assms
  by (simp add: HumanoidFlagrunHarder_calc_potential_def observe_def WalkerBase_calc_potential_def
      potential_leak_def Let_def split: option.splits)

lemma up_tick:
  assumes "0.8 \<le> fst t"
  shows "HumanoidFlagrunHarder_calc_potential (observe s t) =
           (- snd t / dt (scene s) - crawl_ignored_potential s + potential_leak (observe s t) * 100,
            (observe s t)\<lparr>crawl_start_potential := None\<rparr>)"
  using assms
  by (simp add: HumanoidFlagrunHarder_calc_potential_def observe_def WalkerBase_calc_potential_def
      potential_leak_def Let_def)

lemma down_window_frozen:
  assumes "\<forall>t \<in> set ticks. fst t < 0.8" and "crawl_start_potential s = Some c"
    and "progress_trace s ticks = (vs, s')"
  shows "vs = replicate (length ticks) c \<and> crawl_start_potential s' = Some c \<and>
         scene s' = scene s \<and>
         crawl_ignored_potential s' =
           (if ticks = [] then crawl_ignored_potential s else - snd (last ticks) / dt (scene s) - c)"
  using assms
proof (induction ticks arbitrary: s vs s')
  case Nil
  then show ?case by simp
next
  case (Cons t ticks)
  from Cons.prems(1) have t: "fst t < 0.8" and rest: "\<forall>t \<in> set ticks. fst t < 0.8"
    by simp_all
  let ?s1 = "(observe s t)\<lparr>crawl_start_potential := Some c,
                crawl_ignored_potential := - snd t / dt (scene s) - c\<rparr>"
  have step: "HumanoidFlagrunHarder_calc_potential (observe s t) =
                (c + potential_leak (observe s t) * 100, ?s1)"
    using down_tick [OF t, of s] Cons.prems(2) by simp
  obtain ws s2 where tr: "progress_trace ?s1 ticks = (ws, s2)"
    by (cases "progress_trace ?s1 ticks")
  have c1: "crawl_start_potential ?s1 = Some c" by simp
  from Cons.IH [OF rest c1 tr]
  have ih: "ws = replicate (length ticks) c" "crawl_start_potential s2 = Some c"
    "scene s2 = scene ?s1"
    "crawl_ignored_potential s2 =
       (if ticks = [] then crawl_ignored_potential ?s1 else - snd (last ticks) / dt (scene ?s1) - c)"
    by simp_all
  from Cons.prems(3) step tr have "vs = c # ws" and "s' = s2"
    by simp_all
  with ih show ?case by (simp add: observe_def)
qed


text \<open>
  Claim C2. A robot that was up (\<^verbatim>\<open>crawl_start_potential\<close> unset) drops below 0.8 and
  stays there for the ticks of a window. At the first of them \<^verbatim>\<open>crawl_start_potential\<close>
  captures the progress of that moment, and the progress component of every potential
  returned in the window is that value, whatever the distance to the target does: the
  progress made while down is added to \<^verbatim>\<open>crawl_ignored_potential\<close> instead. At the first
  tick at 0.8 or above, the ignored progress is subtracted from the raw progress, so the
  progress component moves from the frozen value by the progress of that one tick only
  (nothing is paid for the window), and \<^verbatim>\<open>crawl_start_potential\<close> is unset again.
\<close>

theorem crawl_suppression:
  assumes up_before: "crawl_start_potential s = None"
    and down: "\<forall>t \<in> set ticks. fst t < 0.8"
    and nonempty: "ticks \<noteq> []"
    and up_after: "0.8 \<le> fst u"
    and window: "progress_trace s ticks = (vs, s1)"
    and recovery: "progress_trace s1 [u] = (ws, s2)"
  shows "vs = replicate (length ticks)
                (WalkerBase_calc_potential (observe s (hd ticks)) - crawl_ignored_potential s) \<and>
         crawl_start_potential s1 =
           Some (WalkerBase_calc_potential (observe s (hd ticks)) - crawl_ignored_potential s) \<and>
         crawl_ignored_potential s1 =
           crawl_ignored_potential s +
           (WalkerBase_calc_potential (observe s (last ticks)) -
            WalkerBase_calc_potential (observe s (hd ticks))) \<and>
         ws = [WalkerBase_calc_potential (observe s (hd ticks)) - crawl_ignored_potential s +
               (WalkerBase_calc_potential (observe s u) -
                WalkerBase_calc_potential (observe s (last ticks)))] \<and>
         crawl_start_potential s2 = None \<and>
         crawl_ignored_potential s2 = crawl_ignored_potential s1"
proof -
  obtain t rest where ticks: "ticks = t # rest"
    using nonempty by (cases ticks) auto
  define c where "c = WalkerBase_calc_potential (observe s t) - crawl_ignored_potential s"
  have raw: "\<And>x. WalkerBase_calc_potential (observe s x) = - snd x / dt (scene s)"
    by (simp add: WalkerBase_calc_potential_def observe_def)
  let ?s0 = "(observe s t)\<lparr>crawl_start_potential := Some c,
                crawl_ignored_potential := - snd t / dt (scene s) - c\<rparr>"
  from down ticks have t: "fst t < 0.8" and rest: "\<forall>t \<in> set rest. fst t < 0.8"
    by simp_all
  have first: "HumanoidFlagrunHarder_calc_potential (observe s t) =
                 (c + potential_leak (observe s t) * 100, ?s0)"
    using down_tick [OF t, of s] up_before by (simp add: c_def raw)
  obtain xs s' where tr: "progress_trace ?s0 rest = (xs, s')"
    by (cases "progress_trace ?s0 rest")
  have c0: "crawl_start_potential ?s0 = Some c" by simp
  from down_window_frozen [OF rest c0 tr]
  have frozen: "xs = replicate (length rest) c" "crawl_start_potential s' = Some c"
    "scene s' = scene s"
    "crawl_ignored_potential s' =
       (if rest = [] then - snd t / dt (scene s) - c else - snd (last rest) / dt (scene s) - c)"
    by (simp_all add: observe_def)
  from window ticks first tr have vs: "vs = c # xs" and s1: "s1 = s'"
    by simp_all
  have ign: "crawl_ignored_potential s1 = - snd (last ticks) / dt (scene s) - c"
    using frozen(4) s1 ticks by simp
  have step: "HumanoidFlagrunHarder_calc_potential (observe s1 u) =
           (- snd u / dt (scene s1) - crawl_ignored_potential s1 + potential_leak (observe s1 u) * 100,
            (observe s1 u)\<lparr>crawl_start_potential := None\<rparr>)"
    by (rule up_tick [OF up_after])
  from recovery step
  have ws: "ws = [- snd u / dt (scene s1) - crawl_ignored_potential s1]"
    and s2: "s2 = (observe s1 u)\<lparr>crawl_start_potential := None\<rparr>"
    by simp_all
  have "vs = replicate (length ticks) c"
    using vs frozen(1) ticks by simp
  moreover have "crawl_start_potential s1 = Some c"
    using frozen(2) s1 by simp
  moreover have "crawl_ignored_potential s1 =
           crawl_ignored_potential s +
           (WalkerBase_calc_potential (observe s (last ticks)) -
            WalkerBase_calc_potential (observe s (hd ticks)))"
    using ign ticks by (simp add: raw c_def)
  moreover have "ws = [c + (WalkerBase_calc_potential (observe s u) -
                WalkerBase_calc_potential (observe s (last ticks)))]"
    using ws ign frozen(3) s1 by (simp add: raw)
  moreover have "crawl_start_potential s2 = None"
    and "crawl_ignored_potential s2 = crawl_ignored_potential s1"
    using s2 by (simp_all add: observe_def)
  ultimately show ?thesis
    using ticks by (simp add: c_def)
qed

theorem crawl_suppression_witness:
  "crawl_start_potential harder0 = None \<and>
   list_all (\<lambda>t. fst t < (0.8 :: real)) [(0.5, 10), (0.4, 9), (0.3, 8 :: real)] \<and>
   (0.8 :: real) \<le> fst (0.9 :: real, 7.5 :: real) \<and>
   progress_trace harder0 [(0.5, 10), (0.4, 9), (0.3, 8)] = ([-600, -600, -600], crawled) \<and>
   progress_trace crawled [(0.9, 7.5)] =
     ([-570], crawled\<lparr>body_xyz := (0, 0, 0.9), walk_target_dist := 7.5,
                      crawl_start_potential := None\<rparr>) \<and>
   crawl_start_potential crawled = Some (-600) \<and>
   crawl_ignored_potential crawled = 120"
proof -
  have a: "crawl_start_potential harder0 = None"
    and b: "\<forall>t \<in> set [(0.5, 10), (0.4, 9), (0.3, 8 :: real)]. fst t < (0.8 :: real)"
    and c: "[(0.5, 10), (0.4, 9), (0.3, 8 :: real)] \<noteq> []"
    and d: "(0.8 :: real) \<le> fst (0.9 :: real, 7.5 :: real)"
    by (simp_all add: harder0_def robot0_def)
  have g: "list_all (\<lambda>t. fst t < (0.8 :: real)) [(0.5, 10), (0.4, 9), (0.3, 8 :: real)]"
    by simp
  have w: "progress_trace harder0 [(0.5, 10), (0.4, 9), (0.3, 8)] = ([-600, -600, -600], crawled)"
    by (simp add: harder0_def crawled_def robot0_def stadium_def observe_def
        HumanoidFlagrunHarder_calc_potential_def WalkerBase_calc_potential_def potential_leak_def
        Let_def)
  have r: "progress_trace crawled [(0.9, 7.5)] =
     ([-570], crawled\<lparr>body_xyz := (0, 0, 0.9), walk_target_dist := 7.5,
                      crawl_start_potential := None\<rparr>)"
    by (simp add: harder0_def crawled_def robot0_def stadium_def observe_def
        HumanoidFlagrunHarder_calc_potential_def WalkerBase_calc_potential_def potential_leak_def
        Let_def)
  have v: "WalkerBase_calc_potential (observe harder0 (0.5, 10)) - crawl_ignored_potential harder0 = -600"
    "WalkerBase_calc_potential (observe harder0 (0.3, 8)) -
       WalkerBase_calc_potential (observe harder0 (0.5, 10)) = 120"
    "crawl_ignored_potential harder0 = 0"
    by (simp_all add: harder0_def robot0_def stadium_def observe_def WalkerBase_calc_potential_def)
  from crawl_suppression [OF a b c d w r]
  have "crawl_start_potential crawled =
          Some (WalkerBase_calc_potential (observe harder0 (0.5, 10)) - crawl_ignored_potential harder0)"
    and "crawl_ignored_potential crawled =
           crawl_ignored_potential harder0 +
           (WalkerBase_calc_potential (observe harder0 (0.3, 8)) -
            WalkerBase_calc_potential (observe harder0 (0.5, 10)))"
    by simp_all
  with v have k: "crawl_start_potential crawled = Some (-600)"
    and i: "crawl_ignored_potential crawled = 120"
    by simp_all
  from a g d w r k i show ?thesis by blast
qed

section \<open>calc\_state: the observation vector\<close>

text \<open>What \<^verbatim>\<open>WalkerBase.calc_state\<close> returns and assigns, in closed form; \<open>r\<close>, \<open>p\<close>, \<open>yaw\<close>
  and the speed are the torso's readings.\<close>

lemma length_joint_array: "length (joint_array s) = 2 * length (ordered_joints s)"
  by (simp add: joint_array_def length_concat o_def sum_list_triv)

lemma np_clip_5: "- 5 \<le> np_clip x (- 5) 5" "np_clip x (- 5) 5 \<le> 5"
  by (simp_all add: np_clip_def)

lemma WalkerBase_calc_state_eq:
  assumes "rpy (part_store s (robot_body s)) = (r, p, yaw)"
    and "speed (part_store s (robot_body s)) = (sx, sy, sz)"
  shows "WalkerBase_calc_state s =
     Inr (map (\<lambda>x. np_clip x (- 5) 5)
            ([torso_z s - latched_z s,
              sin (arctan2 (walk_target_y s - fst (snd (body_centre s)))
                           (walk_target_x s - fst (body_centre s)) - yaw),
              cos (arctan2 (walk_target_y s - fst (snd (body_centre s)))
                           (walk_target_x s - fst (body_centre s)) - yaw),
              0.3 * (cos (- yaw) * sx + (- sin (- yaw)) * sy + 0 * sz),
              0.3 * (sin (- yaw) * sx + cos (- yaw) * sy + 0 * sz),
              0.3 * (0 * sx + 0 * sy + 1 * sz), r, p]
             @ joint_array s @ feet_contact s),
          s\<lparr>joint_speeds := stride 2 (drop 1 (joint_array s)),
            joints_at_limit :=
              length (filter (\<lambda>x. \<bar>float32 x\<bar> > float32 0.99) (stride 2 (joint_array s))),
            body_xyz := body_centre s,
            body_rpy := (r, p, yaw),
            initial_z := Some (latched_z s),
            walk_target_theta := arctan2 (walk_target_y s - fst (snd (body_centre s)))
                                         (walk_target_x s - fst (body_centre s)),
            walk_target_dist := norm2 (walk_target_y s - fst (snd (body_centre s)))
                                      (walk_target_x s - fst (body_centre s))\<rparr>)"
proof (cases "initial_z s")
  case None
  then show ?thesis
    using assms
    by (simp add: WalkerBase_calc_state_def Let_def torso_z_def latched_z_def body_centre_def)
next
  case (Some v)
  then show ?thesis
    using assms
    by (simp add: WalkerBase_calc_state_def Let_def torso_z_def latched_z_def body_centre_def)
qed

text \<open>\<^verbatim>\<open>calc_state\<close> returns on every robot: the branch of the subtraction from \<^verbatim>\<open>None\<close>
  is never taken.\<close>

lemma WalkerBase_calc_state_returns:
  "\<exists>obs s'. WalkerBase_calc_state s = Inr (obs, s') \<and>
     length obs = 8 + 2 * length (ordered_joints s) + length (feet_contact s) \<and>
     (\<forall>x \<in> set obs. - 5 \<le> x \<and> x \<le> 5) \<and>
     obs ! 0 = np_clip (torso_z s - latched_z s) (- 5) 5 \<and>
     initial_z s' = Some (latched_z s) \<and>
     cls s' = cls s \<and> ordered_joints s' = ordered_joints s \<and> feet_contact s' = feet_contact s \<and>
     part_store s' = part_store s \<and> robot_body s' = robot_body s \<and> parts s' = parts s \<and>
     walk_target_x s' = walk_target_x s \<and> walk_target_y s' = walk_target_y s \<and>
     flag_timeout s' = flag_timeout s \<and> scene s' = scene s \<and> np_random s' = np_random s \<and>
     flag s' = flag s \<and> engine s' = engine s \<and> body_xyz s' = body_centre s \<and>
     walk_target_dist s' = norm2 (walk_target_y s - fst (snd (body_centre s)))
                                 (walk_target_x s - fst (body_centre s))"
proof -
  obtain r p yaw where rpy: "rpy (part_store s (robot_body s)) = (r, p, yaw)"
    by (cases "rpy (part_store s (robot_body s))")
  obtain sx sy sz where sp: "speed (part_store s (robot_body s)) = (sx, sy, sz)"
    by (cases "speed (part_store s (robot_body s))")
  show ?thesis
    by (auto simp: WalkerBase_calc_state_eq [OF rpy sp] length_joint_array np_clip_5)
qed

lemma flag_reposition_frame:
  "cls (flag_reposition s) = cls s \<and> ordered_joints (flag_reposition s) = ordered_joints s \<and>
   feet_contact (flag_reposition s) = feet_contact s \<and> initial_z (flag_reposition s) = initial_z s \<and>
   part_store (flag_reposition s) = part_store s \<and> robot_body (flag_reposition s) = robot_body s \<and>
   scene (flag_reposition s) = scene s \<and> flag_timeout (flag_reposition s) = 200"
  by (simp add: flag_reposition_def uniform_def emit_def Let_def split: prod.splits)

lemma calc_potential_frame:
  "initial_z (snd (calc_potential s)) = initial_z s \<and>
   flag_timeout (snd (calc_potential s)) = flag_timeout s \<and>
   walk_target_x (snd (calc_potential s)) = walk_target_x s \<and>
   walk_target_y (snd (calc_potential s)) = walk_target_y s \<and>
   walk_target_dist (snd (calc_potential s)) = walk_target_dist s"
  by (cases "cls s")
     (simp_all add: calc_potential_def HumanoidFlagrunHarder_calc_potential_def Let_def)

lemma declared_dims:
  "declared_obs_dim c = 8 + 2 * declared_action_dim c + length (foot_list c)"
  by (cases c) simp_all

lemma HumanoidFlagrun_calc_state_returns:
  "\<exists>obs s'. HumanoidFlagrun_calc_state s = Inr (obs, s') \<and>
     length obs = 8 + 2 * length (ordered_joints s) + length (feet_contact s) \<and>
     (\<forall>x \<in> set obs. - 5 \<le> x \<and> x \<le> 5) \<and>
     obs ! 0 = np_clip (torso_z s - latched_z s) (- 5) 5 \<and>
     initial_z s' = Some (latched_z s)"
proof -
  let ?s1 = "s\<lparr>flag_timeout := flag_timeout s - 1\<rparr>"
  have s1: "torso_z ?s1 = torso_z s" "latched_z ?s1 = latched_z s"
    by (simp_all add: torso_z_def latched_z_def split: option.splits)
  from WalkerBase_calc_state_returns [of ?s1] obtain obs s2 where
    first: "WalkerBase_calc_state ?s1 = Inr (obs, s2)"
    and len: "length obs = 8 + 2 * length (ordered_joints s) + length (feet_contact s)"
    and bnd: "\<forall>x \<in> set obs. - 5 \<le> x \<and> x \<le> 5"
    and hd: "obs ! 0 = np_clip (torso_z s - latched_z s) (- 5) 5"
    and iz: "initial_z s2 = Some (latched_z s)"
    and fr: "ordered_joints s2 = ordered_joints s" "feet_contact s2 = feet_contact s"
      "part_store s2 = part_store s" "robot_body s2 = robot_body s"
    by (auto simp: s1)
  show ?thesis
  proof (cases "walk_target_dist s2 < 1 \<or> flag_timeout s2 \<le> 0")
    case False
    with first len bnd hd iz show ?thesis
      by (simp add: HumanoidFlagrun_calc_state_def Let_def)
  next
    case True
    let ?s3 = "flag_reposition s2"
    have s3: "torso_z ?s3 = torso_z s" "latched_z ?s3 = latched_z s"
      "ordered_joints ?s3 = ordered_joints s" "feet_contact ?s3 = feet_contact s"
      using flag_reposition_frame [of s2] iz fr
      by (simp_all add: torso_z_def latched_z_def split: option.splits)
    from WalkerBase_calc_state_returns [of ?s3] obtain obs' s4 where
      second: "WalkerBase_calc_state ?s3 = Inr (obs', s4)"
      and len': "length obs' = 8 + 2 * length (ordered_joints s) + length (feet_contact s)"
      and bnd': "\<forall>x \<in> set obs'. - 5 \<le> x \<and> x \<le> 5"
      and hd': "obs' ! 0 = np_clip (torso_z s - latched_z s) (- 5) 5"
      and iz': "initial_z s4 = Some (latched_z s)"
      by (auto simp: s3)
    obtain v s5 where pot: "calc_potential s4 = (v, s5)"
      by (cases "calc_potential s4")
    with calc_potential_frame [of s4] iz' have iz5: "initial_z s5 = Some (latched_z s)"
      by simp
    from first True second pot
    have "HumanoidFlagrun_calc_state s = Inr (obs', s5\<lparr>potential := v\<rparr>)"
      by (simp add: HumanoidFlagrun_calc_state_def Let_def)
    with len' bnd' hd' iz5 show ?thesis by simp
  qed
qed

lemma calc_state_returns:
  "\<exists>obs s'. calc_state s = Inr (obs, s') \<and>
     length obs = 8 + 2 * length (ordered_joints s) + length (feet_contact s) \<and>
     (\<forall>x \<in> set obs. - 5 \<le> x \<and> x \<le> 5) \<and>
     obs ! 0 = np_clip (torso_z s - latched_z s) (- 5) 5 \<and>
     initial_z s' = Some (latched_z s)"
proof (cases "cls s = HumanoidFlagrun \<or> cls s = HumanoidFlagrunHarder")
  case True
  then have "calc_state s = HumanoidFlagrun_calc_state s"
    by (auto simp: calc_state_def)
  with HumanoidFlagrun_calc_state_returns [of s] show ?thesis by simp
next
  case False
  then have "calc_state s = WalkerBase_calc_state s"
    by (cases "cls s") (simp_all add: calc_state_def)
  with WalkerBase_calc_state_returns [of s] show ?thesis by auto
qed

text \<open>
  Claim C3. On a robot of any class whose model has as many joints as the class declares
  for its \<^verbatim>\<open>action_dim\<close>, with the entries of \<^verbatim>\<open>feet_contact\<close> that \<^verbatim>\<open>robot_specific_reset\<close>
  creates (one per name of the class's \<^verbatim>\<open>foot_list\<close>), \<^verbatim>\<open>calc_state()\<close> returns a vector of
  the length the class declares for its \<^verbatim>\<open>obs_dim\<close> (15 for Hopper, 22 for Walker2D, 26
  for HalfCheetah, 28 for Ant, 44 for Humanoid and the Flagrun classes, 70 for Atlas),
  and every entry of it lies between -5 and 5.
\<close>

theorem calc_state_obs_dim:
  assumes "length (ordered_joints s) = declared_action_dim (cls s)"
    and "length (feet_contact s) = length (foot_list (cls s))"
  shows "\<exists>obs s'. calc_state s = Inr (obs, s') \<and>
           length obs = declared_obs_dim (cls s) \<and>
           (\<forall>x \<in> set obs. - 5 \<le> x \<and> x \<le> 5)"
  using calc_state_returns [of s] assms declared_dims [of "cls s"] by auto



theorem calc_state_obs_dim_witness:
  "length (ordered_joints robot0) = declared_action_dim (cls robot0) \<and>
   length (feet_contact robot0) = length (foot_list (cls robot0)) \<and>
   (\<exists>obs s'. calc_state robot0 = Inr (obs, s') \<and> length obs = 15 \<and>
      (\<forall>x \<in> set obs. - 5 \<le> x \<and> x \<le> 5))"
proof -
  have c: "cls robot0 = Hopper"
    and j: "length (ordered_joints robot0) = declared_action_dim (cls robot0)"
    and f: "length (feet_contact robot0) = length (foot_list (cls robot0))"
    by (simp_all add: robot0_def)
  from calc_state_obs_dim [OF j f] c
  have "\<exists>obs s'. calc_state robot0 = Inr (obs, s') \<and> length obs = 15 \<and>
      (\<forall>x \<in> set obs. - 5 \<le> x \<and> x \<le> 5)"
    by simp
  with j f show ?thesis by blast
qed

text \<open>The robot \<open>robot0\<close>, run through \<^verbatim>\<open>calc_state\<close>.\<close>

lemma robot0_fields:
  "cls robot0 = Hopper" "ordered_joints robot0 = [0, 1, 2]"
  "parts robot0 = [(''torso'', 0), (''thigh'', 1), (''leg'', 2), (''foot'', 3)]"
  "robot_body robot0 = 0" "joint_store robot0 = (\<lambda>h. still_joint)"
  "part_store robot0 = (\<lambda>h. still_part)" "feet_contact robot0 = [0]"
  "initial_z robot0 = None" "walk_target_x robot0 = 1000" "walk_target_y robot0 = 0"
  "scene robot0 = stadium" "np_random robot0 = (\<lambda>k. 1 / 2)" "flag_timeout robot0 = 200"
  by (simp_all add: robot0_def)

lemma norm2_0: "norm2 0 v = \<bar>v\<bar>"
  by (simp add: norm2_def)

lemma robot0_centre:
  "part_store s = (\<lambda>h. still_part) \<Longrightarrow>
   parts s = [(''torso'', 0), (''thigh'', 1), (''leg'', 2), (''foot'', 3)] \<Longrightarrow>
   body_centre s = (0, 0, 1.25) \<and> torso_z s = 1.25"
  by (simp add: body_centre_def torso_z_def still_part_def mean_def)

lemma robot0_calc_state:
  "WalkerBase_calc_state robot0 =
     Inr ([0, 0, 1, 0, 0, 0, 0, 0, 0, 0, 0, 0, 0, 0, 0],
          robot0\<lparr>joint_speeds := [0, 0, 0], joints_at_limit := 0,
                 body_xyz := (0, 0, 1.25), body_rpy := (0, 0, 0), initial_z := Some 1.25,
                 walk_target_theta := 0, walk_target_dist := 1000\<rparr>)"
proof -
  have rpy: "rpy (part_store robot0 (robot_body robot0)) = (0, 0, 0)"
    and sp: "speed (part_store robot0 (robot_body robot0)) = (0, 0, 0)"
    by (simp_all add: robot0_fields still_part_def)
  have centre: "body_centre robot0 = (0, 0, 1.25)" "torso_z robot0 = 1.25"
    using robot0_centre [of robot0] by (simp_all add: robot0_fields)
  show ?thesis
    by (simp add: WalkerBase_calc_state_eq [OF rpy sp] centre latched_z_def robot0_fields
        joint_array_def still_joint_def norm2_0 arctan2_def np_clip_def float32_0 float32_099_fraction)
qed

section \<open>robot\_specific\_reset and the first calc\_state\<close>

text \<open>What the resets leave in \<^verbatim>\<open>initial_z\<close>.\<close>

lemma reset_joints_frame:
  "initial_z (reset_joints s js) = initial_z s \<and> cls (reset_joints s js) = cls s \<and>
   parts (reset_joints s js) = parts s \<and> jdict (reset_joints s js) = jdict s \<and>
   part_store (reset_joints s js) = part_store s \<and> robot_body (reset_joints s js) = robot_body s \<and>
   ordered_joints (reset_joints s js) = ordered_joints s"
  by (induction js arbitrary: s) (simp_all add: uniform_def emit_def split: prod.splits)

lemma WalkerBase_reset_post:
  assumes "WalkerBase_robot_specific_reset s = Inr s'"
  shows "initial_z s' = None \<and> cls s' = cls s \<and> jdict s' = jdict s \<and> parts s' = parts s \<and>
         part_store s' = part_store s \<and> robot_body s' = robot_body s \<and>
         ordered_joints s' = ordered_joints s \<and>
         feet_contact s' = replicate (length (foot_list (cls s))) 0"
  using assms reset_joints_frame [of s "ordered_joints s"]
  by (auto simp: WalkerBase_robot_specific_reset_def Let_def emit_def map_replicate_const
      split: sum.splits)

lemma set_power_coefs_frame:
  "set_power_coefs s nvs = Inr s' \<Longrightarrow>
   initial_z s' = initial_z s \<and> cls s' = cls s \<and> part_store s' = part_store s \<and>
   robot_body s' = robot_body s \<and> feet_contact s' = feet_contact s \<and>
   ordered_joints s' = ordered_joints s"
proof (induction nvs arbitrary: s)
  case Nil
  then show ?case by simp
next
  case (Cons nv nvs)
  obtain n v where nv: "nv = (n, v)" by (cases nv)
  with Cons.prems obtain h where
    "set_power_coefs (s\<lparr>joint_store := (joint_store s)(h := (joint_store s h)\<lparr>power_coef := v\<rparr>)\<rparr>) nvs = Inr s'"
    by (auto split: sum.splits)
  from Cons.IH [OF this] show ?case by simp
qed

lemma flag_reposition_initial_z: "initial_z (flag_reposition s) = initial_z s"
  by (simp add: flag_reposition_def uniform_def emit_def Let_def split: prod.splits)

lemma Humanoid_reset_initial_z:
  "Humanoid_robot_specific_reset s = Inr s' \<Longrightarrow> initial_z s' = Some 0.8"
  by (auto simp: Humanoid_robot_specific_reset_def Let_def split: sum.splits)

lemma reset_initial_z:
  assumes "robot_specific_reset s = Inr s'"
  shows "initial_z s' =
           (case cls s of
              Hopper \<Rightarrow> None | Walker2D \<Rightarrow> None | HalfCheetah \<Rightarrow> None | Ant \<Rightarrow> None
            | Atlas \<Rightarrow> Some 1.5
            | _ \<Rightarrow> Some 0.8)"
proof (cases "cls s")
  case Hopper
  with assms WalkerBase_reset_post [of s s'] show ?thesis
    by (simp add: robot_specific_reset_def)
next
  case Walker2D
  with assms obtain s1 nvs where "WalkerBase_robot_specific_reset s = Inr s1"
    and "set_power_coefs s1 nvs = Inr s'"
    by (auto simp: robot_specific_reset_def Walker2D_robot_specific_reset_def
        simp del: set_power_coefs.simps split: sum.splits)
  with WalkerBase_reset_post [of s s1] set_power_coefs_frame [of s1 nvs s'] Walker2D
  show ?thesis by simp
next
  case HalfCheetah
  with assms obtain s1 nvs where "WalkerBase_robot_specific_reset s = Inr s1"
    and "set_power_coefs s1 nvs = Inr s'"
    by (auto simp: robot_specific_reset_def HalfCheetah_robot_specific_reset_def
        simp del: set_power_coefs.simps split: sum.splits)
  with WalkerBase_reset_post [of s s1] set_power_coefs_frame [of s1 nvs s'] HalfCheetah
  show ?thesis by simp
next
  case Ant
  with assms WalkerBase_reset_post [of s s'] show ?thesis
    by (simp add: robot_specific_reset_def)
next
  case Humanoid
  with assms Humanoid_reset_initial_z [of s s'] show ?thesis
    by (simp add: robot_specific_reset_def)
next
  case HumanoidFlagrun
  with assms obtain s1 where "Humanoid_robot_specific_reset s = Inr s1"
    and "s' = flag_reposition s1"
    by (auto simp: robot_specific_reset_def HumanoidFlagrun_robot_specific_reset_def
        split: sum.splits)
  with Humanoid_reset_initial_z [of s s1] HumanoidFlagrun show ?thesis
    by (simp add: flag_reposition_initial_z)
next
  case HumanoidFlagrunHarder
  with assms show ?thesis
    by (auto simp: robot_specific_reset_def HumanoidFlagrunHarder_robot_specific_reset_def
        Let_def split: sum.splits)
next
  case Atlas
  with assms show ?thesis
    by (auto simp: robot_specific_reset_def Atlas_robot_specific_reset_def
        set_initial_orientation_def Let_def emit_def uniform_def split: sum.splits prod.splits if_splits)
qed

text \<open>The resets of \<open>robot0\<close> and of \<open>humanoid0\<close>, and the \<^verbatim>\<open>calc_state\<close> that follows
  the second, evaluated.\<close>

lemma reset_joints_constant_draws:
  "np_random s = (\<lambda>k. c) \<Longrightarrow>
   reset_joints s js =
     s\<lparr>engine := engine s @ map (\<lambda>j. ResetCurrentPosition j (- 0.1 + (0.1 - (- 0.1)) * c) 0) js\<rparr>"
proof (induction js arbitrary: s)
  case Nil
  then show ?case by simp
next
  case (Cons j js)
  let ?s1 = "emit (ResetCurrentPosition j (- 0.1 + (0.1 - (- 0.1)) * c) 0)
               (s\<lparr>np_random := (\<lambda>k. np_random s (Suc k))\<rparr>)"
  from Cons.prems have "np_random ?s1 = (\<lambda>k. c)"
    by (simp add: emit_def)
  from Cons.IH [OF this] Cons.prems show ?case
    by (simp add: uniform_def emit_def)
qed

lemma humanoid_dict:
  "dict_get_all (zip humanoid_joint_names [0..<17]) humanoid_joint_names = Inr [0..<17]"
  by (simp add: humanoid_joint_names_def dict_get_def upt_rec)

lemma Humanoid_reset_eq:
  assumes "WalkerBase_robot_specific_reset s = Inr s1"
    and "dict_get_all (jdict s1) humanoid_joint_names = Inr ms"
  shows "Humanoid_robot_specific_reset s =
           Inr (s1\<lparr>motor_names := humanoid_joint_names,
                   motor_power := [100, 100, 100, 100, 100, 300, 200, 100, 100, 300, 200,
                                   75, 75, 75, 75, 75, 75],
                   motors := ms, initial_z := Some 0.8\<rparr>)"
  using assms
  by (simp add: Humanoid_robot_specific_reset_def Let_def humanoid_joint_names_def)

lemma humanoid0_reset: "robot_specific_reset humanoid0 = Inr humanoid1"
proof -
  have f: "cls humanoid0 = Humanoid" "np_random humanoid0 = (\<lambda>k. 1 / 2)"
    "ordered_joints humanoid0 = [0..<17]" "engine humanoid0 = []"
    "parts humanoid0 = [(''torso'', 0), (''right_foot'', 1), (''left_foot'', 2)]"
    "jdict humanoid0 = zip humanoid_joint_names [0..<17]"
    by (simp_all add: humanoid0_def robot0_def)
  have rj: "reset_joints humanoid0 [0..<17] =
              humanoid0\<lparr>engine := map (\<lambda>j. ResetCurrentPosition j 0 0) [0..<17]\<rparr>"
    using reset_joints_constant_draws [OF f(2), of "[0..<17]"] by (simp add: f)
  let ?s1 = "humanoid0\<lparr>engine := map (\<lambda>j. ResetCurrentPosition j 0 0) [0..<17] @ [ActorIntroduce],
               feet := [1, 2], feet_contact := [0, 0], initial_z := None\<rparr>"
  have base: "WalkerBase_robot_specific_reset humanoid0 = Inr ?s1"
    by (simp add: WalkerBase_robot_specific_reset_def f rj Let_def dict_get_def emit_def)
  have d: "dict_get_all (jdict ?s1) humanoid_joint_names = Inr [0..<17]"
    by (simp add: f humanoid_dict)
  show ?thesis
    by (simp add: robot_specific_reset_def f(1) Humanoid_reset_eq [OF base d] humanoid1_def)
qed

lemma humanoid1_calc_state:
  "calc_state humanoid1 =
     Inr ([0.45, 0, 1, 0, 0, 0, 0, 0,
           0, 0, 0, 0, 0, 0, 0, 0, 0, 0, 0, 0, 0, 0, 0, 0, 0,
           0, 0, 0, 0, 0, 0, 0, 0, 0, 0, 0, 0, 0, 0, 0, 0, 0,
           0, 0], humanoid2)"
proof -
  have f: "cls humanoid1 = Humanoid" "ordered_joints humanoid1 = [0..<17]"
    "parts humanoid1 = [(''torso'', 0), (''right_foot'', 1), (''left_foot'', 2)]"
    "robot_body humanoid1 = 0" "joint_store humanoid1 = (\<lambda>h. still_joint)"
    "part_store humanoid1 = (\<lambda>h. still_part)" "feet_contact humanoid1 = [0, 0]"
    "initial_z humanoid1 = Some 0.8" "walk_target_x humanoid1 = 1000" "walk_target_y humanoid1 = 0"
    by (simp_all add: humanoid1_def humanoid0_def robot0_def)
  have rpy: "rpy (part_store humanoid1 (robot_body humanoid1)) = (0, 0, 0)"
    and sp: "speed (part_store humanoid1 (robot_body humanoid1)) = (0, 0, 0)"
    by (simp_all add: f still_part_def)
  have centre: "body_centre humanoid1 = (0, 0, 1.25)" "torso_z humanoid1 = 1.25"
    by (simp_all add: body_centre_def torso_z_def f still_part_def mean_def)
  have ja: "joint_array humanoid1 =
              [0, 0, 0, 0, 0, 0, 0, 0, 0, 0, 0, 0, 0, 0, 0, 0, 0,
               0, 0, 0, 0, 0, 0, 0, 0, 0, 0, 0, 0, 0, 0, 0, 0, 0]"
    by (simp add: joint_array_def f still_joint_def upt_rec)
  show ?thesis
    by (simp add: calc_state_def WalkerBase_calc_state_eq [OF rpy sp] centre latched_z_def f
        ja norm2_0 arctan2_def np_clip_def humanoid2_def float32_0 float32_099_fraction)
qed


lemma np_clip_0: "np_clip 0 (- 5) 5 = 0"
  by (simp add: np_clip_def)

lemma robot0_reset: "robot_specific_reset robot0 = Inr robot1"
proof -
  have f: "cls robot0 = Hopper" "np_random robot0 = (\<lambda>k. 1 / 2)"
    "ordered_joints robot0 = [0, 1, 2]" "engine robot0 = []"
    "parts robot0 = [(''torso'', 0), (''thigh'', 1), (''leg'', 2), (''foot'', 3)]"
    by (simp_all add: robot0_def)
  have rj: "reset_joints robot0 (ordered_joints robot0) =
              robot0\<lparr>engine := [ResetCurrentPosition 0 0 0, ResetCurrentPosition 1 0 0,
                                ResetCurrentPosition 2 0 0]\<rparr>"
    using reset_joints_constant_draws [OF f(2), of "[0, 1, 2]"] by (simp add: f)
  show ?thesis
    by (simp add: robot_specific_reset_def WalkerBase_robot_specific_reset_def f(1,2,4,5) rj
        Let_def dict_get_def emit_def robot1_def)
qed

text \<open>
  Claim C9 as the spec states it fails on Humanoid: \<^verbatim>\<open>Humanoid.robot_specific_reset\<close> ends
  with \<^verbatim>\<open>self.initial_z = 0.8\<close>, so after the reset of \<open>humanoid0\<close> the attribute is set,
  and the first \<^verbatim>\<open>calc_state()\<close>, with the torso at 1.25, reports a height delta of 0.45.
\<close>

theorem reset_unset_counterexample:
  "robot_specific_reset humanoid0 = Inr humanoid1 \<and>
   initial_z humanoid1 = Some 0.8 \<and>
   torso_z humanoid1 = 1.25 \<and>
   calc_state humanoid1 =
     Inr ([0.45, 0, 1, 0, 0, 0, 0, 0,
      0, 0, 0, 0, 0, 0, 0, 0, 0, 0, 0, 0, 0, 0, 0, 0, 0,
      0, 0, 0, 0, 0, 0, 0, 0, 0, 0, 0, 0, 0, 0, 0, 0, 0,
      0, 0], humanoid2)"
proof -
  have "initial_z humanoid1 = Some 0.8"
    by (simp add: humanoid1_def)
  moreover have "torso_z humanoid1 = 1.25"
    by (simp add: torso_z_def humanoid1_def humanoid0_def robot0_def still_part_def)
  ultimately show ?thesis
    using humanoid0_reset humanoid1_calc_state by simp
qed

text \<open>
  Claim C9, amended. After a \<^verbatim>\<open>robot_specific_reset()\<close> that returns, \<^verbatim>\<open>initial_z\<close> is unset
  for Hopper, Walker2D, HalfCheetah and Ant; for these the first \<^verbatim>\<open>calc_state()\<close> does not
  raise, sets \<^verbatim>\<open>initial_z\<close> to the current height of the torso, and its height-delta entry
  is zero. For Humanoid, HumanoidFlagrun and HumanoidFlagrunHarder the reset leaves
  \<^verbatim>\<open>initial_z = 0.8\<close>, for Atlas \<^verbatim>\<open>initial_z = 1.5\<close>; there the first \<^verbatim>\<open>calc_state()\<close> does not
  raise either, keeps that value, and its height-delta entry is the current height less
  that value, clipped to [-5, 5].
\<close>

theorem reset_then_calc_state:
  assumes "robot_specific_reset s = Inr s1"
  shows "(cls s \<in> {Hopper, Walker2D, HalfCheetah, Ant} \<longrightarrow>
            initial_z s1 = None \<and>
            (\<exists>obs s2. calc_state s1 = Inr (obs, s2) \<and> initial_z s2 = Some (torso_z s1) \<and>
               obs ! 0 = 0)) \<and>
         (cls s \<in> {Humanoid, HumanoidFlagrun, HumanoidFlagrunHarder} \<longrightarrow>
            initial_z s1 = Some 0.8 \<and>
            (\<exists>obs s2. calc_state s1 = Inr (obs, s2) \<and> initial_z s2 = Some 0.8 \<and>
               obs ! 0 = np_clip (torso_z s1 - 0.8) (- 5) 5)) \<and>
         (cls s = Atlas \<longrightarrow>
            initial_z s1 = Some 1.5 \<and>
            (\<exists>obs s2. calc_state s1 = Inr (obs, s2) \<and> initial_z s2 = Some 1.5 \<and>
               obs ! 0 = np_clip (torso_z s1 - 1.5) (- 5) 5))"
proof -
  from calc_state_returns [of s1] obtain obs s2 where
    run: "calc_state s1 = Inr (obs, s2)"
    and delta: "obs ! 0 = np_clip (torso_z s1 - latched_z s1) (- 5) 5"
    and latch: "initial_z s2 = Some (latched_z s1)"
    by blast
  note iz = reset_initial_z [OF assms]
  have base: "cls s \<in> {Hopper, Walker2D, HalfCheetah, Ant} \<longrightarrow>
            initial_z s1 = None \<and>
            (\<exists>obs s2. calc_state s1 = Inr (obs, s2) \<and> initial_z s2 = Some (torso_z s1) \<and>
               obs ! 0 = 0)"
  proof
    assume "cls s \<in> {Hopper, Walker2D, HalfCheetah, Ant}"
    with iz have "initial_z s1 = None" by auto
    moreover from this have "latched_z s1 = torso_z s1" by (simp add: latched_z_def)
    ultimately show "initial_z s1 = None \<and>
            (\<exists>obs s2. calc_state s1 = Inr (obs, s2) \<and> initial_z s2 = Some (torso_z s1) \<and>
               obs ! 0 = 0)"
      using run delta latch by (simp add: np_clip_0)
  qed
  have humanoid: "cls s \<in> {Humanoid, HumanoidFlagrun, HumanoidFlagrunHarder} \<longrightarrow>
            initial_z s1 = Some 0.8 \<and>
            (\<exists>obs s2. calc_state s1 = Inr (obs, s2) \<and> initial_z s2 = Some 0.8 \<and>
               obs ! 0 = np_clip (torso_z s1 - 0.8) (- 5) 5)"
  proof
    assume "cls s \<in> {Humanoid, HumanoidFlagrun, HumanoidFlagrunHarder}"
    with iz have "initial_z s1 = Some 0.8" by auto
    moreover from this have l: "latched_z s1 = 0.8" by (simp add: latched_z_def)
    moreover from delta latch have "obs ! 0 = np_clip (torso_z s1 - 0.8) (- 5) 5"
      and "initial_z s2 = Some 0.8"
      by (simp_all only: l)
    ultimately show "initial_z s1 = Some 0.8 \<and>
            (\<exists>obs s2. calc_state s1 = Inr (obs, s2) \<and> initial_z s2 = Some 0.8 \<and>
               obs ! 0 = np_clip (torso_z s1 - 0.8) (- 5) 5)"
      using run by blast
  qed
  have atlas: "cls s = Atlas \<longrightarrow>
            initial_z s1 = Some 1.5 \<and>
            (\<exists>obs s2. calc_state s1 = Inr (obs, s2) \<and> initial_z s2 = Some 1.5 \<and>
               obs ! 0 = np_clip (torso_z s1 - 1.5) (- 5) 5)"
  proof
    assume "cls s = Atlas"
    with iz have "initial_z s1 = Some 1.5" by auto
    moreover from this have l: "latched_z s1 = 1.5" by (simp add: latched_z_def)
    moreover from delta latch have "obs ! 0 = np_clip (torso_z s1 - 1.5) (- 5) 5"
      and "initial_z s2 = Some 1.5"
      by (simp_all only: l)
    ultimately show "initial_z s1 = Some 1.5 \<and>
            (\<exists>obs s2. calc_state s1 = Inr (obs, s2) \<and> initial_z s2 = Some 1.5 \<and>
               obs ! 0 = np_clip (torso_z s1 - 1.5) (- 5) 5)"
      using run by blast
  qed
  from base humanoid atlas show ?thesis by blast
qed

theorem reset_then_calc_state_witness:
  "robot_specific_reset robot0 = Inr robot1 \<and>
   cls robot0 \<in> {Hopper, Walker2D, HalfCheetah, Ant} \<and>
   initial_z robot1 = None \<and>
   (\<exists>obs s2. calc_state robot1 = Inr (obs, s2) \<and> initial_z s2 = Some (torso_z robot1) \<and>
      obs ! 0 = 0) \<and>
   robot_specific_reset humanoid0 = Inr humanoid1 \<and>
   cls humanoid0 \<in> {Humanoid, HumanoidFlagrun, HumanoidFlagrunHarder} \<and>
   initial_z humanoid1 = Some 0.8 \<and>
   (\<exists>obs s2. calc_state humanoid1 = Inr (obs, s2) \<and> initial_z s2 = Some 0.8 \<and>
      obs ! 0 = np_clip (torso_z humanoid1 - 0.8) (- 5) 5)"
proof -
  have c0: "cls robot0 \<in> {Hopper, Walker2D, HalfCheetah, Ant}"
    by (simp add: robot0_def)
  have ch: "cls humanoid0 \<in> {Humanoid, HumanoidFlagrun, HumanoidFlagrunHarder}"
    by (simp add: humanoid0_def)
  from reset_then_calc_state [OF robot0_reset] c0
  have a: "initial_z robot1 = None \<and>
   (\<exists>obs s2. calc_state robot1 = Inr (obs, s2) \<and> initial_z s2 = Some (torso_z robot1) \<and>
      obs ! 0 = 0)"
    by blast
  from reset_then_calc_state [OF humanoid0_reset] ch
  have b: "initial_z humanoid1 = Some 0.8 \<and>
   (\<exists>obs s2. calc_state humanoid1 = Inr (obs, s2) \<and> initial_z s2 = Some 0.8 \<and>
      obs ! 0 = np_clip (torso_z humanoid1 - 0.8) (- 5) 5)"
    by blast
  from a b c0 ch robot0_reset humanoid0_reset show ?thesis by blast
qed

section \<open>HumanoidFlagrun: moving the flag\<close>

text \<open>A draw from the unit interval, scaled to the stadium and halved, stays within half
  the stadium.\<close>

lemma half_range:
  fixes L u :: real
  assumes "0 \<le> L" "0 \<le> u" "u \<le> 1"
  shows "- 0.5 * L \<le> (- L + (L - (- L)) * u) * 0.5 \<and> (- L + (L - (- L)) * u) * 0.5 \<le> 0.5 * L"
proof -
  have "0 \<le> L * u" using assms by simp
  moreover have "L * u \<le> L * 1" using assms by (intro mult_left_mono) simp_all
  ultimately show ?thesis by (simp add: algebra_simps)
qed

lemma flag_reposition_target:
  "walk_target_x (flag_reposition s) =
     (- stadium_halflen (scene s) +
      (stadium_halflen (scene s) - (- stadium_halflen (scene s))) * np_random s 0) * 0.5 \<and>
   walk_target_y (flag_reposition s) =
     (- stadium_halfwidth (scene s) +
      (stadium_halfwidth (scene s) - (- stadium_halfwidth (scene s))) * np_random s 1) * 0.5 \<and>
   flag (flag_reposition s) =
     Some (walk_target_x (flag_reposition s), walk_target_y (flag_reposition s), 0.2)"
  by (simp add: flag_reposition_def uniform_def emit_def Let_def split: prod.splits)

text \<open>The two ways through \<^verbatim>\<open>HumanoidFlagrun.calc_state\<close>.\<close>

lemma flagrun_calc_state_keep:
  assumes "WalkerBase_calc_state (s\<lparr>flag_timeout := flag_timeout s - 1\<rparr>) = Inr (obs1, s2)"
    and "\<not> (walk_target_dist s2 < 1 \<or> flag_timeout s2 \<le> 0)"
  shows "HumanoidFlagrun_calc_state s = Inr (obs1, s2)"
  using assms by (simp add: HumanoidFlagrun_calc_state_def Let_def)

lemma flagrun_calc_state_retarget:
  assumes "WalkerBase_calc_state (s\<lparr>flag_timeout := flag_timeout s - 1\<rparr>) = Inr (obs1, s2)"
    and "walk_target_dist s2 < 1 \<or> flag_timeout s2 \<le> 0"
    and "WalkerBase_calc_state (flag_reposition s2) = Inr (obs, s4)"
  shows "HumanoidFlagrun_calc_state s =
           Inr (obs, (snd (calc_potential s4))\<lparr>potential := fst (calc_potential s4)\<rparr>)"
  using assms by (simp add: HumanoidFlagrun_calc_state_def Let_def split: prod.splits)

text \<open>\<^verbatim>\<open>calc_state\<close> on a robot that stands upright and still at the origin, as
  \<open>humanoid1\<close> does, with its target ahead on the x axis.\<close>

lemma upright_calc_state:
  assumes "ordered_joints t = [0..<17]" "joint_store t = (\<lambda>h. still_joint)"
    "part_store t = (\<lambda>h. still_part)"
    "parts t = [(''torso'', 0), (''right_foot'', 1), (''left_foot'', 2)]"
    "robot_body t = 0" "feet_contact t = [0, 0]" "initial_z t = Some 0.8"
    "walk_target_y t = 0" "0 \<le> walk_target_x t"
  shows "WalkerBase_calc_state t =
     Inr ([0.45, 0, 1, 0, 0, 0, 0, 0,
           0, 0, 0, 0, 0, 0, 0, 0, 0, 0, 0, 0, 0, 0, 0, 0, 0,
           0, 0, 0, 0, 0, 0, 0, 0, 0, 0, 0, 0, 0, 0, 0, 0, 0,
           0, 0],
          t\<lparr>joint_speeds := [0, 0, 0, 0, 0, 0, 0, 0, 0, 0, 0, 0, 0, 0, 0, 0, 0],
            joints_at_limit := 0, body_xyz := (0, 0, 1.25), body_rpy := (0, 0, 0),
            initial_z := Some 0.8, walk_target_theta := 0,
            walk_target_dist := walk_target_x t\<rparr>)"
proof -
  have rpy: "rpy (part_store t (robot_body t)) = (0, 0, 0)"
    and sp: "speed (part_store t (robot_body t)) = (0, 0, 0)"
    by (simp_all add: assms still_part_def)
  have centre: "body_centre t = (0, 0, 1.25)" "torso_z t = 1.25"
    by (simp_all add: body_centre_def torso_z_def assms still_part_def mean_def)
  have ja: "joint_array t =
              [0, 0, 0, 0, 0, 0, 0, 0, 0, 0, 0, 0, 0, 0, 0, 0, 0,
               0, 0, 0, 0, 0, 0, 0, 0, 0, 0, 0, 0, 0, 0, 0, 0, 0]"
    by (simp add: joint_array_def assms still_joint_def upt_rec)
  have theta: "arctan2 0 (walk_target_x t) = 0"
    using assms(9) by (simp add: arctan2_def)
  have dist: "norm2 0 (walk_target_x t) = walk_target_x t"
    using assms(9) by (simp add: norm2_0)
  show ?thesis
    by (simp add: WalkerBase_calc_state_eq [OF rpy sp] centre latched_z_def assms(1-8)
        ja theta dist np_clip_def float32_0 float32_099_fraction)
qed

lemma flagrun_far_calc_state:
  "calc_state flagrun_far =
     Inr ([0.45, 0, 1, 0, 0, 0, 0, 0,
           0, 0, 0, 0, 0, 0, 0, 0, 0, 0, 0, 0, 0, 0, 0, 0, 0,
           0, 0, 0, 0, 0, 0, 0, 0, 0, 0, 0, 0, 0, 0, 0, 0, 0,
           0, 0], flagrun_far1)"
proof -
  let ?t = "flagrun_far\<lparr>flag_timeout := flag_timeout flagrun_far - 1\<rparr>"
  have first: "WalkerBase_calc_state ?t = Inr ([0.45, 0, 1, 0, 0, 0, 0, 0,
           0, 0, 0, 0, 0, 0, 0, 0, 0, 0, 0, 0, 0, 0, 0, 0, 0,
           0, 0, 0, 0, 0, 0, 0, 0, 0, 0, 0, 0, 0, 0, 0, 0, 0,
           0, 0], flagrun_far1)"
    by (subst upright_calc_state)
       (simp_all add: flagrun_far_def flagrun_far1_def humanoid1_def humanoid0_def robot0_def)
  have keep: "\<not> (walk_target_dist flagrun_far1 < 1 \<or> flag_timeout flagrun_far1 \<le> 0)"
    by (simp add: flagrun_far1_def)
  have "cls flagrun_far = HumanoidFlagrun"
    by (simp add: flagrun_far_def)
  then show ?thesis
    using flagrun_calc_state_keep [OF first keep] by (simp add: calc_state_def)
qed


lemma flagrun_near_first:
  "WalkerBase_calc_state (flagrun_near\<lparr>flag_timeout := flag_timeout flagrun_near - 1\<rparr>) =
     Inr ([0.45, 0, 1, 0, 0, 0, 0, 0,
           0, 0, 0, 0, 0, 0, 0, 0, 0, 0, 0, 0, 0, 0, 0, 0, 0,
           0, 0, 0, 0, 0, 0, 0, 0, 0, 0, 0, 0, 0, 0, 0, 0, 0,
           0, 0], flagrun_near1)"
  by (subst upright_calc_state)
     (simp_all add: flagrun_near_def flagrun_near1_def humanoid1_def humanoid0_def robot0_def)

lemma flagrun_near_reposition:
  "flag_reposition flagrun_near1 =
     flagrun_near1\<lparr>walk_target_x := 0, walk_target_y := 0,
                   engine := engine flagrun_near1 @ [GetSphere 0 0 0.2],
                   flag := Some (0, 0, 0.2), flag_timeout := 200\<rparr>"
  by (simp add: flag_reposition_def uniform_def emit_def Let_def flagrun_near1_def
      flagrun_near_def humanoid1_def humanoid0_def robot0_def stadium_def)

lemma flagrun_near_second:
  "WalkerBase_calc_state (flag_reposition flagrun_near1) =
     Inr ([0.45, 0, 1, 0, 0, 0, 0, 0,
           0, 0, 0, 0, 0, 0, 0, 0, 0, 0, 0, 0, 0, 0, 0, 0, 0,
           0, 0, 0, 0, 0, 0, 0, 0, 0, 0, 0, 0, 0, 0, 0, 0, 0,
           0, 0], flagrun_near2\<lparr>potential := - 90\<rparr>)"
  unfolding flagrun_near_reposition
  by (subst upright_calc_state)
     (simp_all add: flagrun_near2_def flagrun_near1_def flagrun_near_def humanoid1_def
        humanoid0_def robot0_def)

lemma flagrun_near_calc_state:
  "calc_state flagrun_near =
     Inr ([0.45, 0, 1, 0, 0, 0, 0, 0,
           0, 0, 0, 0, 0, 0, 0, 0, 0, 0, 0, 0, 0, 0, 0, 0, 0,
           0, 0, 0, 0, 0, 0, 0, 0, 0, 0, 0, 0, 0, 0, 0, 0, 0,
           0, 0], flagrun_near2)"
proof -
  have trig: "walk_target_dist flagrun_near1 < 1 \<or> flag_timeout flagrun_near1 \<le> 0"
    by (simp add: flagrun_near1_def)
  have c: "cls flagrun_near = HumanoidFlagrun"
    by (simp add: flagrun_near_def)
  have pot: "calc_potential (flagrun_near2\<lparr>potential := - 90\<rparr>) =
               (0, flagrun_near2\<lparr>potential := - 90\<rparr>)"
    by (simp add: calc_potential_def WalkerBase_calc_potential_def flagrun_near2_def
        flagrun_near1_def flagrun_near_def)
  have fin: "flagrun_near2\<lparr>potential := 0\<rparr> = flagrun_near2"
    by (simp add: flagrun_near2_def)
  show ?thesis
    using flagrun_calc_state_retarget [OF flagrun_near_first trig flagrun_near_second] c
    by (simp add: calc_state_def pot fin)
qed

text \<open>
  Claim C5 as the spec states it fails: the distance tested is not the one stored when
  \<^verbatim>\<open>calc_state()\<close> is entered but the one the call itself has just computed. \<open>flagrun_far\<close>
  enters with a stored distance of 0.99 and 100 ticks left; the call computes a distance
  of 1.25, leaves the flag where it is, and returns with \<^verbatim>\<open>flag_timeout = 99\<close>.
\<close>

theorem flagrun_stale_distance_counterexample:
  "walk_target_dist flagrun_far < 1 \<and>
   calc_state flagrun_far =
     Inr ([0.45, 0, 1, 0, 0, 0, 0, 0,
           0, 0, 0, 0, 0, 0, 0, 0, 0, 0, 0, 0, 0, 0, 0, 0, 0,
           0, 0, 0, 0, 0, 0, 0, 0, 0, 0, 0, 0, 0, 0, 0, 0, 0,
           0, 0], flagrun_far1) \<and>
   flag_timeout flagrun_far1 = 99 \<and>
   walk_target_x flagrun_far1 = walk_target_x flagrun_far \<and>
   walk_target_y flagrun_far1 = walk_target_y flagrun_far \<and>
   flag flagrun_far1 = flag flagrun_far \<and>
   potential flagrun_far1 = potential flagrun_far"
  using flagrun_far_calc_state by (simp add: flagrun_far1_def flagrun_far_def)

text \<open>
  Claim C5, amended. In a call of \<^verbatim>\<open>calc_state()\<close> on a HumanoidFlagrun, let the first pass
  of \<^verbatim>\<open>Humanoid.calc_state\<close>, run after the timeout was decremented, compute the distance to
  the target. Whenever that distance is below 1, or the decremented \<^verbatim>\<open>flag_timeout\<close> is 0
  or less, the call returns normally having moved the flag: the new target lies within
  half the stadium's half-length and half-width of the origin in either direction (the
  half-extents being non-negative and the two random draws lying in the unit interval),
  the marker stands at the new target, \<^verbatim>\<open>flag_timeout\<close> is 200, the state returned is the
  one \<^verbatim>\<open>Humanoid.calc_state\<close> computes against the new target, and \<^verbatim>\<open>self.potential\<close> is
  \<^verbatim>\<open>calc_potential()\<close> of the distance to the new target.
\<close>

theorem flagrun_retarget:
  assumes cls: "cls s = HumanoidFlagrun"
    and first: "WalkerBase_calc_state (s\<lparr>flag_timeout := flag_timeout s - 1\<rparr>) = Inr (obs1, s2)"
    and trigger: "walk_target_dist s2 < 1 \<or> flag_timeout s - 1 \<le> 0"
    and draws: "0 \<le> np_random s 0 \<and> np_random s 0 \<le> 1 \<and> 0 \<le> np_random s 1 \<and> np_random s 1 \<le> 1"
    and field: "0 \<le> stadium_halflen (scene s) \<and> 0 \<le> stadium_halfwidth (scene s)"
  shows "\<exists>obs s'. calc_state s = Inr (obs, s') \<and>
           - 0.5 * stadium_halflen (scene s) \<le> walk_target_x s' \<and>
           walk_target_x s' \<le> 0.5 * stadium_halflen (scene s) \<and>
           - 0.5 * stadium_halfwidth (scene s) \<le> walk_target_y s' \<and>
           walk_target_y s' \<le> 0.5 * stadium_halfwidth (scene s) \<and>
           flag s' = Some (walk_target_x s', walk_target_y s', 0.2) \<and>
           flag_timeout s' = 200 \<and>
           (\<exists>s4. WalkerBase_calc_state (flag_reposition s2) = Inr (obs, s4) \<and>
                 walk_target_x s4 = walk_target_x s' \<and> walk_target_y s4 = walk_target_y s') \<and>
           walk_target_dist s' = norm2 (walk_target_y s' - fst (snd (body_xyz s')))
                                       (walk_target_x s' - fst (body_xyz s')) \<and>
           potential s' = - walk_target_dist s' / dt (scene s')"
proof -
  let ?s1 = "s\<lparr>flag_timeout := flag_timeout s - 1\<rparr>"
  from WalkerBase_calc_state_returns [of ?s1] first
  have s2: "cls s2 = cls s" "flag_timeout s2 = flag_timeout s - 1" "scene s2 = scene s"
    "np_random s2 = np_random s"
    by auto
  let ?s3 = "flag_reposition s2"
  from WalkerBase_calc_state_returns [of ?s3] obtain obs s4 where
    second: "WalkerBase_calc_state ?s3 = Inr (obs, s4)"
    and s4: "cls s4 = cls ?s3" "walk_target_x s4 = walk_target_x ?s3"
      "walk_target_y s4 = walk_target_y ?s3" "flag_timeout s4 = flag_timeout ?s3"
      "scene s4 = scene ?s3" "body_xyz s4 = body_centre ?s3" "flag s4 = flag ?s3"
      "walk_target_dist s4 = norm2 (walk_target_y ?s3 - fst (snd (body_centre ?s3)))
                                   (walk_target_x ?s3 - fst (body_centre ?s3))"
    by blast
  define s' where "s' = s4\<lparr>potential := - walk_target_dist s4 / dt (scene s4)\<rparr>"
  have c4: "cls s4 = HumanoidFlagrun"
    using s4(1) s2(1) cls flag_reposition_frame [of s2] by simp
  then have pot: "calc_potential s4 = (- walk_target_dist s4 / dt (scene s4), s4)"
    by (simp add: calc_potential_def WalkerBase_calc_potential_def)
  from trigger s2(2) have trig: "walk_target_dist s2 < 1 \<or> flag_timeout s2 \<le> 0"
    by simp
  have run: "calc_state s = Inr (obs, s')"
    using flagrun_calc_state_retarget [OF first trig second] cls
    by (simp add: calc_state_def pot s'_def)
  from draws have d: "0 \<le> np_random s 0" "np_random s 0 \<le> 1"
    "0 \<le> np_random s 1" "np_random s 1 \<le> 1"
    by blast+
  from field have f: "0 \<le> stadium_halflen (scene s)" "0 \<le> stadium_halfwidth (scene s)"
    by blast+
  have wx: "walk_target_x ?s3 =
     (- stadium_halflen (scene s) +
      (stadium_halflen (scene s) - (- stadium_halflen (scene s))) * np_random s 0) * 0.5"
    and wy: "walk_target_y ?s3 =
     (- stadium_halfwidth (scene s) +
      (stadium_halfwidth (scene s) - (- stadium_halfwidth (scene s))) * np_random s 1) * 0.5"
    using flag_reposition_target [of s2] by (simp_all only: s2)
  have x: "- 0.5 * stadium_halflen (scene s) \<le> walk_target_x ?s3 \<and>
           walk_target_x ?s3 \<le> 0.5 * stadium_halflen (scene s)"
    unfolding wx by (rule half_range [OF f(1) d(1) d(2)])
  have y: "- 0.5 * stadium_halfwidth (scene s) \<le> walk_target_y ?s3 \<and>
           walk_target_y ?s3 \<le> 0.5 * stadium_halfwidth (scene s)"
    unfolding wy by (rule half_range [OF f(2) d(3) d(4)])
  have t: "flag_timeout ?s3 = 200"
    using flag_reposition_frame [of s2] by simp
  have e: "walk_target_x s' = walk_target_x ?s3" "walk_target_y s' = walk_target_y ?s3"
    "flag_timeout s' = 200" "flag s' = flag ?s3" "body_xyz s' = body_centre ?s3"
    "walk_target_dist s' = walk_target_dist s4" "scene s' = scene s4"
    "potential s' = - walk_target_dist s4 / dt (scene s4)"
    using s4 t by (simp_all add: s'_def)
  have c1: "- 0.5 * stadium_halflen (scene s) \<le> walk_target_x s' \<and>
           walk_target_x s' \<le> 0.5 * stadium_halflen (scene s) \<and>
           - 0.5 * stadium_halfwidth (scene s) \<le> walk_target_y s' \<and>
           walk_target_y s' \<le> 0.5 * stadium_halfwidth (scene s)"
    using x y by (simp only: e)
  have c2: "flag s' = Some (walk_target_x s', walk_target_y s', 0.2)"
    using flag_reposition_target [of s2] by (simp only: e)
  have c3: "\<exists>s4. WalkerBase_calc_state ?s3 = Inr (obs, s4) \<and>
                 walk_target_x s4 = walk_target_x s' \<and> walk_target_y s4 = walk_target_y s'"
    using second s4(2,3) by (simp only: e) blast
  have c4: "walk_target_dist s' = norm2 (walk_target_y s' - fst (snd (body_xyz s')))
                                       (walk_target_x s' - fst (body_xyz s'))"
    using s4(8) by (simp only: e)
  have c5: "potential s' = - walk_target_dist s' / dt (scene s')"
    by (simp only: e)
  from run c1 c2 e(3) c3 c4 c5 show ?thesis by blast
qed


theorem flagrun_retarget_witness:
  "cls flagrun_near = HumanoidFlagrun \<and>
   WalkerBase_calc_state (flagrun_near\<lparr>flag_timeout := flag_timeout flagrun_near - 1\<rparr>) =
     Inr ([0.45, 0, 1, 0, 0, 0, 0, 0,
           0, 0, 0, 0, 0, 0, 0, 0, 0, 0, 0, 0, 0, 0, 0, 0, 0,
           0, 0, 0, 0, 0, 0, 0, 0, 0, 0, 0, 0, 0, 0, 0, 0, 0,
           0, 0], flagrun_near1) \<and>
   walk_target_dist flagrun_near1 < 1 \<and>
   np_random flagrun_near 0 = 1 / 2 \<and> np_random flagrun_near 1 = 1 / 2 \<and>
   stadium_halflen (scene flagrun_near) = 26 \<and> stadium_halfwidth (scene flagrun_near) = 12 \<and>
   calc_state flagrun_near =
     Inr ([0.45, 0, 1, 0, 0, 0, 0, 0,
           0, 0, 0, 0, 0, 0, 0, 0, 0, 0, 0, 0, 0, 0, 0, 0, 0,
           0, 0, 0, 0, 0, 0, 0, 0, 0, 0, 0, 0, 0, 0, 0, 0, 0,
           0, 0], flagrun_near2) \<and>
   - 0.5 * 26 \<le> walk_target_x flagrun_near2 \<and> walk_target_x flagrun_near2 \<le> 0.5 * 26 \<and>
   - 0.5 * 12 \<le> walk_target_y flagrun_near2 \<and> walk_target_y flagrun_near2 \<le> 0.5 * 12 \<and>
   flag_timeout flagrun_near2 = 200 \<and>
   potential flagrun_near2 = - walk_target_dist flagrun_near2 / dt (scene flagrun_near2)"
proof -
  have c: "cls flagrun_near = HumanoidFlagrun"
    and d: "np_random flagrun_near 0 = 1 / 2" "np_random flagrun_near 1 = 1 / 2"
    and f: "stadium_halflen (scene flagrun_near) = 26" "stadium_halfwidth (scene flagrun_near) = 12"
    by (simp_all add: flagrun_near_def humanoid1_def humanoid0_def robot0_def stadium_def)
  have trig: "walk_target_dist flagrun_near1 < 1"
    by (simp add: flagrun_near1_def)
  then have trigger: "walk_target_dist flagrun_near1 < 1 \<or> flag_timeout flagrun_near - 1 \<le> 0"
    by simp
  have draws: "0 \<le> np_random flagrun_near 0 \<and> np_random flagrun_near 0 \<le> 1 \<and>
               0 \<le> np_random flagrun_near 1 \<and> np_random flagrun_near 1 \<le> 1"
    using d by simp
  have field: "0 \<le> stadium_halflen (scene flagrun_near) \<and> 0 \<le> stadium_halfwidth (scene flagrun_near)"
    by (simp add: f)
  from flagrun_retarget [OF c flagrun_near_first trigger draws field]
  obtain obs s' where
    "calc_state flagrun_near = Inr (obs, s')"
    "- 0.5 * stadium_halflen (scene flagrun_near) \<le> walk_target_x s'"
    "walk_target_x s' \<le> 0.5 * stadium_halflen (scene flagrun_near)"
    "- 0.5 * stadium_halfwidth (scene flagrun_near) \<le> walk_target_y s'"
    "walk_target_y s' \<le> 0.5 * stadium_halfwidth (scene flagrun_near)"
    "flag_timeout s' = 200"
    "potential s' = - walk_target_dist s' / dt (scene s')"
    by blast
  with flagrun_near_calc_state
  have "- 0.5 * 26 \<le> walk_target_x flagrun_near2 \<and> walk_target_x flagrun_near2 \<le> 0.5 * 26 \<and>
   - 0.5 * 12 \<le> walk_target_y flagrun_near2 \<and> walk_target_y flagrun_near2 \<le> 0.5 * 12 \<and>
   flag_timeout flagrun_near2 = 200 \<and>
   potential flagrun_near2 = - walk_target_dist flagrun_near2 / dt (scene flagrun_near2)"
    by (simp add: f)
  with c flagrun_near_first trig d f flagrun_near_calc_state show ?thesis by blast
qed

section \<open>The alive bonus of Atlas\<close>

text \<open>Without one of the two knee joints in \<^verbatim>\<open>jdict\<close> the call raises KeyError.\<close>

lemma Atlas_alive_bonus_KeyError:
  "map_of (jdict s) ''l_leg_kny'' = None \<or> map_of (jdict s) ''r_leg_kny'' = None \<Longrightarrow>
   Atlas_alive_bonus s z pitch = Inl KeyError"
  by (auto simp: Atlas_alive_bonus_def dict_get_def split: prod.splits option.splits)

text \<open>
  Claim C8 as the spec states it fails in two ways. The \<open>z\<close> passed to
  \<^verbatim>\<open>Atlas.alive_bonus\<close> is overwritten by the height of the head before it is tested: on
  \<open>atlas0\<close>, whose head is at 1.7 and whose left knee is at its limit, a call with
  \<open>z = 1.0\<close>, which is not above 1.3, returns 3 and not -1. And the knee positions are
  compared after their cast to float32: on \<open>atlas_edge\<close>, called with the height 1.7 of
  its head, the left knee is at 0.99000001, which exceeds 0.99, yet it is not counted
  and the call returns 4 and not 3.
\<close>

theorem Atlas_passed_height_counterexample:
  "\<not> (1.0 :: real) > 1.3 \<and> Atlas_alive_bonus atlas0 1.0 0 = Inr 3 \<and>
   Atlas_alive_bonus atlas0 1.0 0 \<noteq> Inr (- 1) \<and>
   (1.7 :: real) > 1.3 \<and>
   \<bar>fst (current_relative_position (joint_store atlas_edge 0))\<bar> > 0.99 \<and>
   Atlas_alive_bonus atlas_edge 1.7 0 = Inr 4 \<and>
   Atlas_alive_bonus atlas_edge 1.7 0 \<noteq> Inr 3"
proof -
  have a: "Atlas_alive_bonus atlas0 1.0 0 = Inr 3"
    by (simp add: Atlas_alive_bonus_def atlas0_def robot0_def dict_get_def Let_def
        still_joint_def still_part_def float32_0 float32_1 float32_099_fraction)
  have e: "Atlas_alive_bonus atlas_edge 1.7 0 = Inr 4"
    by (simp add: Atlas_alive_bonus_def atlas_edge_def atlas0_def robot0_def dict_get_def Let_def
        still_joint_def still_part_def float32_0 float32_edge_fraction float32_099_fraction)
  have k: "\<bar>fst (current_relative_position (joint_store atlas_edge 0))\<bar> > 0.99"
    by (simp add: atlas_edge_def still_joint_def)
  from a e k show ?thesis by simp
qed

text \<open>
  Claim C8, amended. On an Atlas whose model has the joints \<^verbatim>\<open>l_leg_kny\<close> and
  \<^verbatim>\<open>r_leg_kny\<close>, \<^verbatim>\<open>alive_bonus(z, pitch)\<close> returns 4 minus the number of these two knees
  whose normalised position, cast to float32, exceeds in magnitude the float32 number
  nearest to 0.99, when the height of the head part is above 1.3, and -1 otherwise; the
  \<open>z\<close> passed to it does not change the result.
\<close>

theorem Atlas_alive_bonus_head:
  assumes "map_of (jdict s) ''l_leg_kny'' = Some l" and "map_of (jdict s) ''r_leg_kny'' = Some r"
  shows "Atlas_alive_bonus s z pitch =
           Inr (if snd (snd (xyz (part_store s (head s)))) > 1.3
                then 4 - int (length (filter
                       (\<lambda>h. \<bar>float32 (fst (current_relative_position (joint_store s h)))\<bar> > float32 0.99)
                       [l, r]))
                else -1) \<and>
         Atlas_alive_bonus s z' pitch = Atlas_alive_bonus s z pitch"
proof -
  obtain x y hz where head: "xyz (part_store s (head s)) = (x, y, hz)"
    by (cases "xyz (part_store s (head s))")
  have "\<And>z. Atlas_alive_bonus s z pitch =
           Inr (if hz > 1.3
                then 4 - int (length (filter
                       (\<lambda>h. \<bar>float32 (fst (current_relative_position (joint_store s h)))\<bar> > float32 0.99)
                       [l, r]))
                else -1)"
    by (simp add: Atlas_alive_bonus_def head Let_def dict_get_def assms)
  then show ?thesis by (simp add: head)
qed

theorem Atlas_alive_bonus_head_witness:
  "map_of (jdict atlas0) ''l_leg_kny'' = Some 0 \<and> map_of (jdict atlas0) ''r_leg_kny'' = Some 1 \<and>
   snd (snd (xyz (part_store atlas0 (head atlas0)))) = 1.7 \<and>
   Atlas_alive_bonus atlas0 1.0 0 = Inr 3 \<and>
   Atlas_alive_bonus atlas0 1.4 0 = Inr 3 \<and>
   Atlas_alive_bonus (atlas0\<lparr>head := 0\<rparr>) 1.4 0 = Inr (- 1) \<and>
   map_of (jdict atlas_edge) ''l_leg_kny'' = Some 0 \<and>
   map_of (jdict atlas_edge) ''r_leg_kny'' = Some 1 \<and>
   Atlas_alive_bonus atlas_edge 1.7 0 = Inr 4"
proof -
  have l: "map_of (jdict atlas0) ''l_leg_kny'' = Some 0"
    and r: "map_of (jdict atlas0) ''r_leg_kny'' = Some 1"
    and l': "map_of (jdict (atlas0\<lparr>head := 0\<rparr>)) ''l_leg_kny'' = Some 0"
    and r': "map_of (jdict (atlas0\<lparr>head := 0\<rparr>)) ''r_leg_kny'' = Some 1"
    and le: "map_of (jdict atlas_edge) ''l_leg_kny'' = Some 0"
    and re: "map_of (jdict atlas_edge) ''r_leg_kny'' = Some 1"
    by (simp_all add: atlas0_def atlas_edge_def)
  have h: "snd (snd (xyz (part_store atlas0 (head atlas0)))) = 1.7"
    "snd (snd (xyz (part_store (atlas0\<lparr>head := 0\<rparr>) (head (atlas0\<lparr>head := 0\<rparr>))))) = 1.0"
    "snd (snd (xyz (part_store atlas_edge (head atlas_edge)))) = 1.7"
    by (simp_all add: atlas0_def atlas_edge_def still_part_def)
  have k: "length (filter
             (\<lambda>h. \<bar>float32 (fst (current_relative_position (joint_store atlas0 h)))\<bar> > float32 0.99)
             [0, 1]) = 1"
    by (simp add: atlas0_def still_joint_def float32_0 float32_1 float32_099_fraction)
  have ke: "length (filter
             (\<lambda>h. \<bar>float32 (fst (current_relative_position (joint_store atlas_edge h)))\<bar> > float32 0.99)
             [0, 1]) = 0"
    by (simp add: atlas_edge_def still_joint_def float32_0 float32_edge_fraction float32_099_fraction)
  from Atlas_alive_bonus_head [OF l r, of "1.0" 0 "1.4"] h(1) k
  have a: "Atlas_alive_bonus atlas0 1.0 0 = Inr 3" "Atlas_alive_bonus atlas0 1.4 0 = Inr 3"
    by simp_all
  from Atlas_alive_bonus_head [OF l' r', of "1.4" 0 "1.4"] h(2)
  have b: "Atlas_alive_bonus (atlas0\<lparr>head := 0\<rparr>) 1.4 0 = Inr (- 1)"
    by simp
  from Atlas_alive_bonus_head [OF le re, of "1.7" 0 "1.7"] h(3) ke
  have c: "Atlas_alive_bonus atlas_edge 1.7 0 = Inr 4"
    by simp
  from l r h(1) a b le re c show ?thesis by blast
qed

section \<open>The constructor of HumanoidFlagrunHarder\<close>

text \<open>The constructors of the other classes return an object that carries the declared
  dimensions; so does the parent's, called as \<^verbatim>\<open>HumanoidFlagrun()\<close>.\<close>

lemma siblings_construct:
  "construct HumanoidFlagrun blank [] =
     Inr (XmlBasedRobot_init (WalkerBase_init (blank\<lparr>cls := HumanoidFlagrun\<rparr>) 0.41)
            ''humanoid_symmetric.xml'' ''torso'' 17 44)"
  "construct Humanoid blank [] =
     Inr (XmlBasedRobot_init (WalkerBase_init (blank\<lparr>cls := Humanoid\<rparr>) 0.41)
            ''humanoid_symmetric.xml'' ''torso'' 17 44)"
  by (simp_all add: construct_def HumanoidFlagrun_init_def Humanoid_init_def)

lemma constructors_declare_dims:
  assumes "construct c blank [] = Inr s"
  shows "cls s = c \<and> action_dim s = declared_action_dim c \<and> obs_dim s = declared_obs_dim c"
  using assms
  by (cases c)
     (auto simp: construct_def Hopper_init_def Walker2D_init_def HalfCheetah_init_def Ant_init_def
        Humanoid_init_def HumanoidFlagrun_init_def HumanoidFlagrunHarder_init_def Atlas_init_def
        XmlBasedRobot_init_def WalkerBase_init_def)

text \<open>
  Claim C10. Every call of the class \<^verbatim>\<open>HumanoidFlagrunHarder\<close>, with whatever positional
  arguments, raises TypeError: with arguments its own \<^verbatim>\<open>__init__\<close> refuses them, and with
  none \<^verbatim>\<open>__init__\<close> calls \<^verbatim>\<open>HumanoidFlagrun.__init__()\<close> without the instance. No object
  of the class is ever returned by its constructor.
\<close>

theorem HumanoidFlagrunHarder_constructor_raises:
  "construct HumanoidFlagrunHarder blank args = Inl TypeError"
proof (cases args)
  case Nil
  have parent: "HumanoidFlagrun_init [] = Inl TypeError"
    by (simp add: HumanoidFlagrun_init_def)
  have "HumanoidFlagrunHarder_init [blank\<lparr>cls := HumanoidFlagrunHarder\<rparr>] = HumanoidFlagrun_init []"
    by (simp add: HumanoidFlagrunHarder_init_def)
  with parent Nil show ?thesis
    by (simp add: construct_def)
next
  case (Cons a rest)
  then have "HumanoidFlagrunHarder_init (blank\<lparr>cls := HumanoidFlagrunHarder\<rparr> # args) = Inl TypeError"
    by (simp add: HumanoidFlagrunHarder_init_def)
  then show ?thesis
    by (simp add: construct_def)
qed

end
